theory Spec2Isabelle
  imports Main "HOL-Library.Word" "HOL-Library.Signed_Division"
begin

unbundle bit_operations_syntax

section \<open>Data model of zen-freq (zen-freq.h)\<close>

text \<open>
  The driver's fixed-width integers are words: \<open>u8\<close>, \<open>u32\<close> and \<open>u64\<close> wrap
  around as in C; an \<open>s32\<close> is a 32-bit word read through \<open>sint\<close> (the kernel is
  built with wrapping signed arithmetic). \<open>unsigned int\<close> is 32 bits wide.
\<close>

type_synonym u8 = "8 word"
type_synonym u32 = "32 word"
type_synonym s32 = "32 word"
type_synonym u64 = "64 word"

datatype zen_thermal_state =
    ZEN_THERMAL_NORMAL
  | ZEN_THERMAL_SOFT_THROTTLE
  | ZEN_THERMAL_HARD_THROTTLE
  | ZEN_THERMAL_RECOVERY

text \<open>\<open>struct zen_perf_target\<close>; the \<open>rcu\<close> head is reclamation bookkeeping and has no value.\<close>

record zen_perf_target =
  desired_perf :: u8
  min_perf :: u8
  max_perf :: u8
  epp :: u8
  timestamp :: u64
  sequence :: u32

text \<open>\<open>struct zen_pstate\<close>.\<close>

record zen_pstate =
  pstate :: u8
  freq :: u32
  voltage :: u32
  vid :: u8
  fid :: u8
  did :: u8
  div_val :: u8
  en :: bool
  boost :: bool
  safe :: bool

text \<open>The anonymous \<open>stats\<close> struct of \<open>struct zen_freq_cpu\<close>.\<close>

record zen_stats =
  transitions :: u64
  io_boosts :: u64
  thermal_events :: u64
  voltage_clamps :: u64
  total_time_ns :: u64

text \<open>
  \<open>struct zen_freq_cpu\<close>. The arrays \<open>pstates[ZEN_MAX_PSTATES]\<close> and
  \<open>boost_states[ZEN_MAX_BOOST_STATES]\<close> are kept as the lists of their valid entries: the
  counters \<open>num_pstates\<close> and \<open>num_boost\<close> of the source are the lengths of these lists
  (every loop of the source reads the entries below the counter only). A pointer that may be
  \<open>NULL\<close> is an option: \<open>perf_target\<close> and the frequency table \<open>freq_table_rcu\<close>, whose
  entries are kept by their \<open>frequency\<close> field, the terminating \<open>CPUFREQ_TABLE_END\<close> entry
  being the end of the list.
\<close>

record zen_freq_cpu =
  cpu :: u32
  pstates :: "zen_pstate list"
  boost_states :: "zen_pstate list"
  max_freq :: u32
  min_freq :: u32
  nominal_freq :: u32
  highest_perf :: u8
  lowest_perf :: u8
  nominal_perf :: u8
  cur_pstate :: u32
  cur_freq :: u32
  perf_target :: "zen_perf_target option"
  freq_table_rcu :: "u32 list option"
  thermal_state :: zen_thermal_state
  thermal_integral :: s32
  thermal_throttle_perf :: u8
  last_temp :: u32
  io_boost_active :: bool
  io_boost_expire :: u64
  last_io_wait :: u64
  util_low_since :: u64
  dynamic_epp :: u8
  epp_mode :: u8
  boost_supported :: bool
  boost_enabled :: bool
  stats :: zen_stats

abbreviation num_pstates :: "zen_freq_cpu \<Rightarrow> nat" where
  "num_pstates zcpu \<equiv> length (pstates zcpu)"

abbreviation num_boost :: "zen_freq_cpu \<Rightarrow> nat" where
  "num_boost zcpu \<equiv> length (boost_states zcpu)"

text \<open>
  The module parameters the modelled functions read. They are writable at run time
  (mode 0644), so every function takes them as an argument.
\<close>

record zen_params =
  zen_freq_mode :: u32
  zen_freq_boost_enabled :: bool
  zen_freq_min_perf :: u32
  zen_freq_max_perf :: u32
  zen_freq_soft_temp :: u32
  zen_freq_hard_temp :: u32
  zen_freq_voltage_max :: u32

definition ZEN_THERMAL_SOFT_LIMIT :: u32 where "ZEN_THERMAL_SOFT_LIMIT = 80"
definition ZEN_THERMAL_HARD_LIMIT :: u32 where "ZEN_THERMAL_HARD_LIMIT = 90"
definition ZEN_THERMAL_HYSTERESIS :: u32 where "ZEN_THERMAL_HYSTERESIS = 3"
definition ZEN_THERMAL_SAFE_LIMIT :: u32 where "ZEN_THERMAL_SAFE_LIMIT = 75"
definition ZEN_THERMAL_KP :: s32 where "ZEN_THERMAL_KP = 50"
definition ZEN_THERMAL_KI :: s32 where "ZEN_THERMAL_KI = 10"
definition ZEN_THERMAL_INTEGRAL_MAX :: s32 where "ZEN_THERMAL_INTEGRAL_MAX = 1000"
definition ZEN_VOLTAGE_MAX_SAFE :: u32 where "ZEN_VOLTAGE_MAX_SAFE = 1450"
definition ZEN_VOLTAGE_BOOST_MAX :: u32 where "ZEN_VOLTAGE_BOOST_MAX = 1500"
definition ZEN_EPP_BALANCE :: u8 where "ZEN_EPP_BALANCE = 0x80"
definition ZEN_FREQ_MODE_BALANCE :: u32 where "ZEN_FREQ_MODE_BALANCE = 1"
definition ZEN_FREQ_BASE :: u32 where "ZEN_FREQ_BASE = 25"
definition ZEN_FREQ_MULTIPLIER :: u32 where "ZEN_FREQ_MULTIPLIER = 1000"

text \<open>The initial values of the module parameters (zen-freq.c, lines 89 to 123).\<close>

definition default_params :: zen_params where
  "default_params =
     \<lparr> zen_freq_mode = ZEN_FREQ_MODE_BALANCE,
       zen_freq_boost_enabled = True,
       zen_freq_min_perf = 0,
       zen_freq_max_perf = 255,
       zen_freq_soft_temp = ZEN_THERMAL_SOFT_LIMIT,
       zen_freq_hard_temp = ZEN_THERMAL_HARD_LIMIT,
       zen_freq_voltage_max = ZEN_VOLTAGE_MAX_SAFE \<rparr>"

section \<open>Thermal guard (zen-freq.c, lines 205 to 352)\<close>

text \<open>
  Signed 32-bit division truncates towards zero; signed comparison reads both sides
  through \<open>sint\<close>.
\<close>

definition s32_div :: "s32 \<Rightarrow> s32 \<Rightarrow> s32" where
  "s32_div a b = word_of_int (sint a sdiv sint b)"

text \<open>
  \<open>ZEN_CLAMP(val, min, max)\<close> on signed 32-bit values.
\<close>

definition ZEN_CLAMP :: "s32 \<Rightarrow> s32 \<Rightarrow> s32 \<Rightarrow> s32" where
  "ZEN_CLAMP val lo hi = (if val <s lo then lo else if hi <s val then hi else val)"

text \<open>
  \<open>zen_read_temperature\<close>: the argument is what \<open>rdmsrl_safe_on_cpu\<close> delivers,
  \<open>None\<close> when the read fails. Bit 31 is \<open>THERM_STATUS_VALID\<close>, bits 16 to 22 the
  temperature. The result 0 stands for "no sample".
\<close>

definition zen_read_temperature :: "u64 option \<Rightarrow> u32" where
  "zen_read_temperature rd =
     (case rd of
        None \<Rightarrow> 0
      | Some therm_status \<Rightarrow>
          if therm_status AND push_bit 31 1 \<noteq> 0
          then ucast (drop_bit 16 therm_status AND 0x7F)
          else 0)"

text \<open>
  \<open>zen_thermal_pi_controller\<close>: returns the recommended ceiling and the per-CPU data with
  the integral accumulator updated.
\<close>

definition zen_thermal_pi_controller :: "zen_params \<Rightarrow> zen_freq_cpu \<Rightarrow> u32 \<Rightarrow> u8 \<times> zen_freq_cpu" where
  "zen_thermal_pi_controller prm zcpu temp =
     (let error = temp - zen_freq_soft_temp prm;
          proportional = s32_div (error * ZEN_THERMAL_KP) 1000;
          acc = thermal_integral zcpu + error;
          acc' = (if ZEN_THERMAL_INTEGRAL_MAX <s acc then ZEN_THERMAL_INTEGRAL_MAX
                  else if acc <s - ZEN_THERMAL_INTEGRAL_MAX then - ZEN_THERMAL_INTEGRAL_MAX
                  else acc);
          zcpu' = zcpu\<lparr>thermal_integral := acc'\<rparr>;
          integral = s32_div (acc' * ZEN_THERMAL_KI) 1000;
          adjustment = proportional + integral;
          max_perf = (if 0 <s adjustment then ucast (255 - ZEN_CLAMP adjustment 0 255) else 255)
      in (max_perf, zcpu'))"

text \<open>
  The \<open>switch\<close> of \<open>zen_thermal_check_cpu\<close> (lines 286 to 343). It yields the new state,
  the value assigned to the local \<open>new_max_perf\<close> and the per-CPU data as the branch left
  it. The local is declared without an initialiser, so the value is an option: \<open>None\<close>
  when the branch taken made no assignment to it. The \<open>default\<close> label is not reachable
  from the four values of the enumeration.
\<close>

definition thermal_switch ::
  "zen_params \<Rightarrow> zen_freq_cpu \<Rightarrow> u32 \<Rightarrow> zen_thermal_state \<times> u8 option \<times> zen_freq_cpu" where
  "thermal_switch prm zcpu temp =
     (case thermal_state zcpu of
        ZEN_THERMAL_NORMAL \<Rightarrow>
          if zen_freq_hard_temp prm \<le> temp
          then (ZEN_THERMAL_HARD_THROTTLE, Some (lowest_perf zcpu), zcpu)
          else if zen_freq_soft_temp prm \<le> temp
          then (let (p, zcpu') = zen_thermal_pi_controller prm zcpu temp
                in (ZEN_THERMAL_SOFT_THROTTLE, Some p, zcpu'))
          else (ZEN_THERMAL_NORMAL, Some (ucast (zen_freq_max_perf prm)), zcpu)
      | ZEN_THERMAL_SOFT_THROTTLE \<Rightarrow>
          if zen_freq_hard_temp prm \<le> temp
          then (ZEN_THERMAL_HARD_THROTTLE, Some (lowest_perf zcpu), zcpu)
          else if temp < zen_freq_soft_temp prm - ZEN_THERMAL_HYSTERESIS
          then (ZEN_THERMAL_RECOVERY, None, zcpu\<lparr>thermal_integral := 0\<rparr>)
          else (let (p, zcpu') = zen_thermal_pi_controller prm zcpu temp
                in (ZEN_THERMAL_SOFT_THROTTLE, Some p, zcpu'))
      | ZEN_THERMAL_HARD_THROTTLE \<Rightarrow>
          if temp < zen_freq_hard_temp prm - ZEN_THERMAL_HYSTERESIS
          then (let (p, zcpu') = zen_thermal_pi_controller prm zcpu temp
                in (ZEN_THERMAL_SOFT_THROTTLE, Some p, zcpu'))
          else (ZEN_THERMAL_HARD_THROTTLE, Some (lowest_perf zcpu), zcpu)
      | ZEN_THERMAL_RECOVERY \<Rightarrow>
          if temp < ZEN_THERMAL_SAFE_LIMIT
          then (ZEN_THERMAL_NORMAL, Some (ucast (zen_freq_max_perf prm)), zcpu)
          else if zen_freq_soft_temp prm \<le> temp
          then (let (p, zcpu') = zen_thermal_pi_controller prm zcpu temp
                in (ZEN_THERMAL_SOFT_THROTTLE, Some p, zcpu'))
          else (ZEN_THERMAL_RECOVERY,
                Some (if unat (thermal_throttle_perf zcpu) + 10 < 255
                      then thermal_throttle_perf zcpu + 10 else 255),
                zcpu))"

text \<open>
  \<open>zen_thermal_check_cpu\<close>. \<open>temp\<close> is the value \<open>zen_read_temperature(zcpu->cpu)\<close>
  returned for this poll. \<open>stack\<close> is the byte found in the stack slot of the local
  \<open>new_max_perf\<close> on entry: it is what line 346 reads when the branch taken has not
  assigned the local.
\<close>

definition zen_thermal_check_cpu :: "zen_params \<Rightarrow> u8 \<Rightarrow> u32 \<Rightarrow> zen_freq_cpu \<Rightarrow> zen_freq_cpu" where
  "zen_thermal_check_cpu prm stack temp zcpu =
     (if temp = 0 then zcpu
      else
        (let z1 = zcpu\<lparr>last_temp := temp\<rparr>;
             (new_state, assigned, z2) = thermal_switch prm z1 temp;
             new_max_perf = (case assigned of Some v \<Rightarrow> v | None \<Rightarrow> stack);
             z3 = (if new_max_perf \<noteq> thermal_throttle_perf z2
                   then z2\<lparr>thermal_throttle_perf := new_max_perf,
                           stats := (stats z2)\<lparr>thermal_events := thermal_events (stats z2) + 1\<rparr>\<rparr>
                   else z2)
         in z3\<lparr>thermal_state := new_state\<rparr>))"

text \<open>
  One pass of \<open>zen_thermal_thread\<close> over a single CPU, repeated: the polls of a core, each
  with the stack byte and the temperature it met.
\<close>

fun thermal_polls :: "zen_params \<Rightarrow> (u8 \<times> u32) list \<Rightarrow> zen_freq_cpu \<Rightarrow> zen_freq_cpu" where
  "thermal_polls prm [] zcpu = zcpu"
| "thermal_polls prm ((stack, temp) # rest) zcpu =
     thermal_polls prm rest (zen_thermal_check_cpu prm stack temp zcpu)"

text \<open>The thermal states a core passes through, one per poll.\<close>

fun thermal_trace :: "zen_params \<Rightarrow> (u8 \<times> u32) list \<Rightarrow> zen_freq_cpu \<Rightarrow> zen_thermal_state list" where
  "thermal_trace prm [] zcpu = []"
| "thermal_trace prm ((stack, temp) # rest) zcpu =
     (let zcpu' = zen_thermal_check_cpu prm stack temp zcpu
      in thermal_state zcpu' # thermal_trace prm rest zcpu')"

section \<open>Errors\<close>

text \<open>
  The error returns of the driver, and the processor's divide error: the two conversion
  macros divide by a difference that the source does not check against zero.
\<close>

datatype zen_error = ENOMEM | ENODEV | EINVAL | DivideError

section \<open>P-state discovery (zen-freq.c, lines 850 to 1012)\<close>

definition PSTATE_DEF_EN :: u64 where
  "PSTATE_DEF_EN = push_bit 63 1"

definition PSTATE_DEF_DID :: "u64 \<Rightarrow> u32" where
  "PSTATE_DEF_DID val = ucast (drop_bit 6 val AND 0x1F)"

definition PSTATE_DEF_FID :: "u64 \<Rightarrow> u32" where
  "PSTATE_DEF_FID val = ucast (val AND 0x3F)"

definition PSTATE_DEF_VID :: "u64 \<Rightarrow> u32" where
  "PSTATE_DEF_VID val = ucast (drop_bit 11 val AND 0xFF)"

definition PSTATE_DEF_CUR_DIV :: "u64 \<Rightarrow> u32" where
  "PSTATE_DEF_CUR_DIV val = ucast (drop_bit 4 val AND 0x3)"

definition zen_freq_calc_freq_from_pstate :: "u64 \<Rightarrow> u32" where
  "zen_freq_calc_freq_from_pstate pstate_val =
     (let did = PSTATE_DEF_DID pstate_val;
          fid = PSTATE_DEF_FID pstate_val;
          dv = PSTATE_DEF_CUR_DIV pstate_val;
          freq_mhz = (if did = 0 then fid * ZEN_FREQ_BASE
                      else (fid * ZEN_FREQ_BASE * 4) div (did + 4));
          freq_mhz' = (if 0 < dv then freq_mhz div push_bit (unat (dv - 1)) 1 else freq_mhz)
      in freq_mhz' * ZEN_FREQ_MULTIPLIER)"

text \<open>
  What \<open>kzalloc\<close> hands to \<open>zen_freq_init_cpu\<close>: every field zero. The first
  enumerator, \<open>ZEN_THERMAL_NORMAL\<close>, is the zero of the enumeration.
\<close>

definition zeroed_stats :: zen_stats where
  "zeroed_stats =
     \<lparr> transitions = 0, io_boosts = 0, thermal_events = 0, voltage_clamps = 0,
       total_time_ns = 0 \<rparr>"

definition zeroed_cpu :: zen_freq_cpu where
  "zeroed_cpu =
     \<lparr> cpu = 0, pstates = [], boost_states = [], max_freq = 0, min_freq = 0,
       nominal_freq = 0, highest_perf = 0, lowest_perf = 0, nominal_perf = 0,
       cur_pstate = 0, cur_freq = 0, perf_target = None, freq_table_rcu = None,
       thermal_state = ZEN_THERMAL_NORMAL, thermal_integral = 0,
       thermal_throttle_perf = 0, last_temp = 0, io_boost_active = False,
       io_boost_expire = 0, last_io_wait = 0, util_low_since = 0, dynamic_epp = 0,
       epp_mode = 0, boost_supported = False, boost_enabled = False,
       stats = zeroed_stats \<rparr>"

definition zeroed_target :: zen_perf_target where
  "zeroed_target =
     \<lparr> desired_perf = 0, min_perf = 0, max_perf = 0, epp = 0, timestamp = 0, sequence = 0 \<rparr>"

text \<open>
  One round of the discovery loop of \<open>zen_freq_get_pstate_info\<close> for index \<open>i\<close>.
  \<open>rdmsr i\<close> is the outcome of \<open>rdmsrl_safe_on_cpu\<close> on \<open>MSR_AMD_PSTATE_DEF_BASE + i\<close>,
  \<open>None\<close> when it fails. The entry is written at index \<open>num_pstates\<close>, that is, appended;
  the fields the loop does not write keep the zeroes of \<open>kzalloc\<close>.
\<close>

definition pstate_info_round :: "(nat \<Rightarrow> u64 option) \<Rightarrow> nat \<Rightarrow> zen_freq_cpu \<Rightarrow> zen_freq_cpu" where
  "pstate_info_round rdmsr i zcpu =
     (case rdmsr i of
        None \<Rightarrow> zcpu
      | Some pstate_val \<Rightarrow>
          if pstate_val AND PSTATE_DEF_EN = 0 then zcpu
          else
            (let f = zen_freq_calc_freq_from_pstate pstate_val;
                 ps = \<lparr> pstate = of_nat i, freq = f, voltage = 0,
                        vid = ucast (PSTATE_DEF_VID pstate_val),
                        fid = ucast (PSTATE_DEF_FID pstate_val),
                        did = ucast (PSTATE_DEF_DID pstate_val),
                        div_val = ucast (PSTATE_DEF_CUR_DIV pstate_val),
                        en = True, boost = False, safe = False \<rparr>
             in zcpu\<lparr> pstates := pstates zcpu @ [ps],
                      max_freq := (if max_freq zcpu < f then f else max_freq zcpu),
                      min_freq := (if f < min_freq zcpu then f else min_freq zcpu) \<rparr>))"

text \<open>
  \<open>zen_freq_get_pstate_info\<close>. \<open>cpb\<close> is the outcome of the boost capability test
  (\<open>X86_FEATURE_CPB\<close> or CPUID 8000_0007 EDX bit 9). \<open>ZEN_MAX_PSTATES\<close> is 8.
\<close>

definition zen_freq_get_pstate_info ::
  "(nat \<Rightarrow> u64 option) \<Rightarrow> bool \<Rightarrow> zen_freq_cpu \<Rightarrow> zen_error + zen_freq_cpu" where
  "zen_freq_get_pstate_info rdmsr cpb zcpu =
     (let z0 = zcpu\<lparr> pstates := [], boost_states := [], max_freq := 0,
                     min_freq := - 1, nominal_freq := 0 \<rparr>;
          z1 = fold (pstate_info_round rdmsr) [0, 1, 2, 3, 4, 5, 6, 7] z0;
          z2 = z1\<lparr> nominal_freq := max_freq z1, highest_perf := 255, lowest_perf := 0,
                   nominal_perf := 128 \<rparr>;
          z3 = (if cpb
                then z2\<lparr> boost_supported := True,
                         pstates := map (\<lambda>ps. if nominal_freq z2 < freq ps
                                                then ps\<lparr>boost := True\<rparr> else ps)
                                        (pstates z2) \<rparr>
                else z2);
          z4 = z3\<lparr> thermal_throttle_perf := 255, thermal_state := ZEN_THERMAL_NORMAL,
                   dynamic_epp := ZEN_EPP_BALANCE \<rparr>
      in if 0 < num_pstates z4 then Inr z4 else Inl ENODEV)"

text \<open>
  \<open>zen_freq_build_freq_table\<close>: the table lists the P-states from the last to the first.
  \<open>alloc_ok\<close> tells whether \<open>kcalloc\<close> succeeded.
\<close>

definition zen_freq_build_freq_table :: "bool \<Rightarrow> zen_freq_cpu \<Rightarrow> zen_error + zen_freq_cpu" where
  "zen_freq_build_freq_table alloc_ok zcpu =
     (if \<not> alloc_ok then Inl ENOMEM
      else Inr (zcpu\<lparr>freq_table_rcu := Some (map freq (rev (pstates zcpu)))\<rparr>))"

section \<open>Voltage safety verification (zen-freq.c, lines 429 to 487)\<close>

text \<open>
  \<open>ZEN_VID_TO_MV(vid)\<close>: the \<open>u8\<close> is promoted, the \<open>int\<close> result is stored in a \<open>u32\<close>
  and so wraps for \<open>vid > 62\<close>.
\<close>

definition ZEN_VID_TO_MV :: "u8 \<Rightarrow> u32" where
  "ZEN_VID_TO_MV v = 1550 - ucast v * 25"

text \<open>\<open>zen_voltage_verify_pstate\<close>: the P-state as the call leaves it, and the result.\<close>

definition zen_voltage_verify_pstate :: "zen_params \<Rightarrow> zen_pstate \<Rightarrow> zen_pstate \<times> bool" where
  "zen_voltage_verify_pstate prm ps =
     (let voltage_mv = ZEN_VID_TO_MV (vid ps);
          ps1 = ps\<lparr>voltage := voltage_mv\<rparr>
      in if zen_freq_voltage_max prm < voltage_mv
         then (if boost ps1 \<and> voltage_mv \<le> ZEN_VOLTAGE_BOOST_MAX
               then (ps1, True)
               else (ps1\<lparr>safe := False\<rparr>, False))
         else (ps1\<lparr>safe := True\<rparr>, True))"

text \<open>
  The first loop of \<open>zen_voltage_check_all_pstates\<close>, over \<open>pstates\<close>: the entries as
  verified, \<open>has_unsafe\<close> and the counter \<open>stats.voltage_clamps\<close>.
\<close>

fun check_pstates ::
  "zen_params \<Rightarrow> zen_pstate list \<Rightarrow> bool \<Rightarrow> u64 \<Rightarrow> zen_pstate list \<times> bool \<times> u64" where
  "check_pstates prm [] has_unsafe clamps = ([], has_unsafe, clamps)"
| "check_pstates prm (ps # rest) has_unsafe clamps =
     (let (ps', ok) = zen_voltage_verify_pstate prm ps;
          (rest', h, c) = (if ok then check_pstates prm rest has_unsafe clamps
                           else check_pstates prm rest True (clamps + 1))
      in (ps' # rest', h, c))"

text \<open>The second loop, over \<open>boost_states\<close>: it sets \<open>has_unsafe\<close> only.\<close>

fun check_boost_states ::
  "zen_params \<Rightarrow> zen_pstate list \<Rightarrow> bool \<Rightarrow> zen_pstate list \<times> bool" where
  "check_boost_states prm [] has_unsafe = ([], has_unsafe)"
| "check_boost_states prm (ps # rest) has_unsafe =
     (let (ps', ok) = zen_voltage_verify_pstate prm ps;
          (rest', h) = (if ok then check_boost_states prm rest has_unsafe
                        else check_boost_states prm rest True)
      in (ps' # rest', h))"

text \<open>
  \<open>zen_voltage_check_all_pstates\<close>. The function returns 0 whatever it finds;
  \<open>has_unsafe\<close> only selects a log message, so the per-CPU data is the whole result.
\<close>

definition zen_voltage_check_all_pstates :: "zen_params \<Rightarrow> zen_freq_cpu \<Rightarrow> zen_freq_cpu" where
  "zen_voltage_check_all_pstates prm zcpu =
     (let (pss, h1, c) = check_pstates prm (pstates zcpu) False (voltage_clamps (stats zcpu));
          (bss, h2) = check_boost_states prm (boost_states zcpu) h1
      in zcpu\<lparr> pstates := pss, boost_states := bss,
               stats := (stats zcpu)\<lparr>voltage_clamps := c\<rparr> \<rparr>)"

section \<open>Performance target and policy callbacks (zen-freq.c, lines 593 to 626 and 1025 to 1135)\<close>

text \<open>
  \<open>struct cpufreq_policy\<close>, the fields the driver touches. \<open>driver_data\<close> is the pointer
  to the per-CPU data, \<open>None\<close> for \<open>NULL\<close>; \<open>cur\<close> is the frequency the cpufreq core
  recorded as the one in force.
\<close>

record cpufreq_policy =
  policy_cpu :: u32
  cur :: u32
  policy_min :: u32
  policy_max :: u32
  driver_data :: "zen_freq_cpu option"

text \<open>
  \<open>ZEN_FREQ_TO_PERF\<close> and \<open>ZEN_PERF_TO_FREQ\<close>. Every operand is converted to
  \<open>unsigned int\<close> by the usual arithmetic conversions, so the subtractions and the product
  wrap at 32 bits and the division is unsigned. A zero divisor is the divide error.
\<close>

definition ZEN_FREQ_TO_PERF :: "u32 \<Rightarrow> u32 \<Rightarrow> u32 \<Rightarrow> u32 \<Rightarrow> u32 \<Rightarrow> zen_error + u32" where
  "ZEN_FREQ_TO_PERF f mn_freq mx_freq mn_perf mx_perf =
     (if mx_freq - mn_freq = 0 then Inl DivideError
      else Inr (mn_perf + ((mx_perf - mn_perf) * (f - mn_freq)) div (mx_freq - mn_freq)))"

definition ZEN_PERF_TO_FREQ :: "u8 \<Rightarrow> u8 \<Rightarrow> u8 \<Rightarrow> u32 \<Rightarrow> u32 \<Rightarrow> zen_error + u32" where
  "ZEN_PERF_TO_FREQ perf mn_perf mx_perf mn_freq mx_freq =
     (if (ucast mx_perf :: u32) - ucast mn_perf = 0 then Inl DivideError
      else Inr (mn_freq + ((mx_freq - mn_freq) * (ucast perf - ucast mn_perf))
                            div (ucast mx_perf - ucast mn_perf)))"

text \<open>
  \<open>zen_perf_target_update\<close>. \<open>alloc_ok\<close> tells whether \<open>zen_perf_target_alloc\<close>
  returned memory and \<open>now\<close> is the reading of \<open>sched_clock()\<close>. The new target replaces
  the pointer; the old one goes to \<open>kfree_rcu\<close>.
\<close>

definition zen_perf_target_update ::
  "bool \<Rightarrow> u64 \<Rightarrow> zen_freq_cpu \<Rightarrow> u8 \<Rightarrow> u8 \<Rightarrow> u8 \<Rightarrow> u8 \<Rightarrow> zen_freq_cpu" where
  "zen_perf_target_update alloc_ok now zcpu desired mn mx e =
     (if \<not> alloc_ok then zcpu
      else zcpu\<lparr>perf_target :=
                  Some \<lparr> desired_perf = desired, min_perf = mn, max_perf = mx, epp = e,
                         timestamp = now, sequence = cur_pstate zcpu + 1 \<rparr>\<rparr>)"

text \<open>
  \<open>zen_freq_verify_policy\<close>, given the per-CPU data of \<open>policy->cpu\<close>.
\<close>

definition zen_freq_verify_policy :: "zen_freq_cpu option \<Rightarrow> cpufreq_policy \<Rightarrow> zen_error + cpufreq_policy" where
  "zen_freq_verify_policy percpu policy =
     (case percpu of
        None \<Rightarrow> Inl EINVAL
      | Some zcpu \<Rightarrow>
          (let p1 = (if policy_min policy < min_freq zcpu
                     then policy\<lparr>policy_min := min_freq zcpu\<rparr> else policy);
               p2 = (if max_freq zcpu < policy_max p1
                     then p1\<lparr>policy_max := max_freq zcpu\<rparr> else p1);
               p3 = (if policy_max p2 < policy_min p2
                     then p2\<lparr>policy_min := policy_max p2\<rparr> else p2)
           in Inr p3))"

text \<open>
  \<open>zen_freq_set_policy\<close>: the per-CPU data with the new target published. The two
  performance values are truncated to \<open>u8\<close> when they are passed on.
\<close>

definition zen_freq_set_policy :: "bool \<Rightarrow> u64 \<Rightarrow> cpufreq_policy \<Rightarrow> zen_error + zen_freq_cpu" where
  "zen_freq_set_policy alloc_ok now policy =
     (case driver_data policy of
        None \<Rightarrow> Inl EINVAL
      | Some zcpu \<Rightarrow>
          (case ZEN_FREQ_TO_PERF (policy_max policy) (min_freq zcpu) (max_freq zcpu) 0 255 of
             Inl e \<Rightarrow> Inl e
           | Inr d \<Rightarrow>
               (case ZEN_FREQ_TO_PERF (policy_min policy) (min_freq zcpu) (max_freq zcpu) 0 255 of
                  Inl e \<Rightarrow> Inl e
                | Inr m \<Rightarrow>
                    Inr (zen_perf_target_update alloc_ok now zcpu (ucast d) (ucast m)
                           (thermal_throttle_perf zcpu) (dynamic_epp zcpu)))))"

text \<open>
  \<open>zen_freq_init_cpu\<close>. The three booleans tell whether the allocation of the per-CPU
  data, of the frequency table and of the initial target succeeded. The initial target is
  the zeroed block of \<open>zen_perf_target_alloc\<close>. The result is the policy with
  \<open>driver_data\<close> set.
\<close>

definition zen_freq_init_cpu ::
  "zen_params \<Rightarrow> (nat \<Rightarrow> u64 option) \<Rightarrow> bool \<Rightarrow> bool \<Rightarrow> bool \<Rightarrow> bool \<Rightarrow> cpufreq_policy
     \<Rightarrow> zen_error + cpufreq_policy" where
  "zen_freq_init_cpu prm rdmsr cpb alloc_cpu alloc_table alloc_target policy =
     (if \<not> alloc_cpu then Inl ENOMEM
      else
        (let z0 = zeroed_cpu\<lparr> cpu := policy_cpu policy,
                              boost_enabled := zen_freq_boost_enabled prm, cur_freq := 0 \<rparr>
         in case zen_freq_get_pstate_info rdmsr cpb z0 of
              Inl e \<Rightarrow> Inl e
            | Inr z1 \<Rightarrow>
                (case zen_freq_build_freq_table alloc_table (zen_voltage_check_all_pstates prm z1) of
                   Inl e \<Rightarrow> Inl e
                 | Inr z2 \<Rightarrow>
                     if \<not> alloc_target then Inl ENOMEM
                     else
                       (let z3 = z2\<lparr>perf_target := Some zeroed_target\<rparr>
                        in Inr (policy\<lparr> driver_data := Some z3,
                                        policy_min := min_freq z3,
                                        policy_max := max_freq z3 \<rparr>)))))"

section \<open>Lock-less fast switch (zen-freq.c, lines 150 to 168 and 642 to 713)\<close>

text \<open>\<open>CPUFREQ_TABLE_END\<close> of \<open>linux/cpufreq.h\<close> is \<open>~1u\<close>.\<close>

definition CPUFREQ_TABLE_END :: u32 where
  "CPUFREQ_TABLE_END = NOT 1"

text \<open>
  The scan of lines 665 to 675 over the table entries, \<open>best_freq\<close> being the running
  value of the local. An entry equal to \<open>CPUFREQ_TABLE_END\<close> ends the loop, as the end of
  the table does; an entry equal to the request ends it by \<open>break\<close>.
\<close>

fun freq_scan :: "u32 list \<Rightarrow> u32 \<Rightarrow> u32 \<Rightarrow> u32" where
  "freq_scan [] target_freq best_freq = best_freq"
| "freq_scan (f # table) target_freq best_freq =
     (if f = CPUFREQ_TABLE_END then best_freq
      else if f = target_freq then f
      else freq_scan table target_freq
             (if f \<le> target_freq \<and> best_freq < f then f else best_freq))"

text \<open>
  Lines 678 to 694: the thermal cap and the I/O boost, applied only when a performance
  target is installed.
\<close>

definition apply_target_limits :: "zen_freq_cpu \<Rightarrow> u32 \<Rightarrow> zen_error + u32" where
  "apply_target_limits zcpu best_freq =
     (case perf_target zcpu of
        None \<Rightarrow> Inr best_freq
      | Some target \<Rightarrow>
          (case (if thermal_state zcpu \<noteq> ZEN_THERMAL_NORMAL
                 then (case ZEN_PERF_TO_FREQ (thermal_throttle_perf zcpu) (lowest_perf zcpu)
                               (highest_perf zcpu) (min_freq zcpu) (max_freq zcpu) of
                         Inl e \<Rightarrow> Inl e
                       | Inr limit_freq \<Rightarrow>
                           Inr (if limit_freq < best_freq then limit_freq else best_freq))
                 else Inr best_freq) of
             Inl e \<Rightarrow> Inl e
           | Inr b \<Rightarrow>
               Inr (if io_boost_active zcpu \<and> b < nominal_freq zcpu
                    then nominal_freq zcpu else b)))"

text \<open>
  The search of lines 699 to 704: the index of the first P-state with the frequency, counted
  from \<open>i\<close>.
\<close>

fun find_pstate :: "zen_pstate list \<Rightarrow> u32 \<Rightarrow> nat \<Rightarrow> nat option" where
  "find_pstate [] best_freq i = None"
| "find_pstate (ps # rest) best_freq i =
     (if freq ps = best_freq then Some i else find_pstate rest best_freq (Suc i))"

text \<open>
  \<open>zen_write_pstate_local\<close>, as far as memory goes: the read-modify-write of the P-state
  control register is the hardware's business; the function then records the frequency of
  \<open>cur_pstate\<close> in \<open>cur_freq\<close>.
\<close>

definition zen_write_pstate_local :: "zen_freq_cpu \<Rightarrow> zen_freq_cpu" where
  "zen_write_pstate_local zcpu =
     (if unat (cur_pstate zcpu) < num_pstates zcpu
      then zcpu\<lparr>cur_freq := freq (pstates zcpu ! unat (cur_pstate zcpu))\<rparr>
      else zcpu)"

text \<open>
  \<open>zen_freq_fast_switch_lockless\<close>. \<open>smp_ret\<close> is the value
  \<open>smp_call_function_single\<close> returns: 0 when the call was handed to the target CPU, which
  then runs \<open>zen_write_pstate_local\<close>, and an error code when it was not. The result is
  the returned frequency and the policy with the per-CPU data as the call leaves it.
\<close>

definition zen_freq_fast_switch_lockless ::
  "int \<Rightarrow> cpufreq_policy \<Rightarrow> u32 \<Rightarrow> zen_error + (u32 \<times> cpufreq_policy)" where
  "zen_freq_fast_switch_lockless smp_ret policy target_freq =
     (case driver_data policy of
        None \<Rightarrow> Inr (0, policy)
      | Some zcpu \<Rightarrow>
          (case freq_table_rcu zcpu of
             None \<Rightarrow> Inr (0, policy)
           | Some table \<Rightarrow>
               (case apply_target_limits zcpu (freq_scan table target_freq (cur policy)) of
                  Inl e \<Rightarrow> Inl e
                | Inr best_freq \<Rightarrow>
                    (let z1 = (case find_pstate (pstates zcpu) best_freq 0 of
                                 Some i \<Rightarrow> zcpu\<lparr>cur_pstate := of_nat i\<rparr>
                               | None \<Rightarrow> zcpu)
                     in if smp_ret = 0
                        then Inr (best_freq, policy\<lparr>driver_data := Some (zen_write_pstate_local z1)\<rparr>)
                        else Inr (cur policy, policy\<lparr>driver_data := Some z1\<rparr>)))))"

section \<open>The transition table of the specification\<close>

text \<open>
  Section 4.4 of the specification, in its own words: the next thermal state from the soft
  limit, the hard limit, the hysteresis, the "fully safe" threshold, the state and the
  temperature, all of them integers. The implementation above is compared with it below.
\<close>

fun spec_thermal_next :: "int \<Rightarrow> int \<Rightarrow> int \<Rightarrow> int \<Rightarrow> zen_thermal_state \<Rightarrow> int \<Rightarrow> zen_thermal_state" where
  "spec_thermal_next soft hard hyst fully_safe ZEN_THERMAL_NORMAL t =
     (if t \<ge> hard then ZEN_THERMAL_HARD_THROTTLE
      else if t \<ge> soft then ZEN_THERMAL_SOFT_THROTTLE
      else ZEN_THERMAL_NORMAL)"
| "spec_thermal_next soft hard hyst fully_safe ZEN_THERMAL_SOFT_THROTTLE t =
     (if t \<ge> hard then ZEN_THERMAL_HARD_THROTTLE
      else if t < soft - hyst then ZEN_THERMAL_RECOVERY
      else ZEN_THERMAL_SOFT_THROTTLE)"
| "spec_thermal_next soft hard hyst fully_safe ZEN_THERMAL_HARD_THROTTLE t =
     (if t < hard - hyst then ZEN_THERMAL_SOFT_THROTTLE
      else ZEN_THERMAL_HARD_THROTTLE)"
| "spec_thermal_next soft hard hyst fully_safe ZEN_THERMAL_RECOVERY t =
     (if t < fully_safe then ZEN_THERMAL_NORMAL
      else if t \<ge> soft then ZEN_THERMAL_SOFT_THROTTLE
      else ZEN_THERMAL_RECOVERY)"

fun spec_thermal_trace :: "int \<Rightarrow> int \<Rightarrow> int \<Rightarrow> int \<Rightarrow> zen_thermal_state \<Rightarrow> int list \<Rightarrow> zen_thermal_state list" where
  "spec_thermal_trace soft hard hyst fully_safe st [] = []"
| "spec_thermal_trace soft hard hyst fully_safe st (t # ts) =
     (let st' = spec_thermal_next soft hard hyst fully_safe st t
      in st' # spec_thermal_trace soft hard hyst fully_safe st' ts)"

text \<open>
  The same section on the integral and on the ceiling. The controller: the error is the
  temperature minus the soft limit, the proportional term is \<open>error * Kp / scale\<close>, the
  accumulator sums the error and is clamped to \<open>integralMax\<close> either way, the adjustment is the
  proportional term plus \<open>integral * Ki / scale\<close>, and the ceiling is
  \<open>255 - clamp(adjustment, 0, 255)\<close> when the adjustment is positive, else the full ceiling.
  The division truncates toward zero.
\<close>

definition spec_clamp :: "int \<Rightarrow> int \<Rightarrow> int \<Rightarrow> int" where
  "spec_clamp v lo hi = (if v < lo then lo else if hi < v then hi else v)"

definition spec_pi_integral :: "int \<Rightarrow> int \<Rightarrow> int \<Rightarrow> int \<Rightarrow> int" where
  "spec_pi_integral integral_max soft acc t = spec_clamp (acc + (t - soft)) (- integral_max) integral_max"

definition spec_pi_ceiling :: "int \<Rightarrow> int \<Rightarrow> int \<Rightarrow> int \<Rightarrow> int \<Rightarrow> int \<Rightarrow> int \<Rightarrow> int \<Rightarrow> int" where
  "spec_pi_ceiling kp ki scale integral_max full soft acc t =
     (let error = t - soft;
          proportional = (error * kp) sdiv scale;
          integral = spec_pi_integral integral_max soft acc t;
          adjustment = proportional + (integral * ki) sdiv scale
      in if 0 < adjustment then 255 - spec_clamp adjustment 0 255 else full)"

text \<open>
  The integral and the ceiling that the table attaches to each transition, with Kp = 50,
  Ki = 10, scale 1000 and integralMax 1000 (section 8 of the specification). \<open>lowest\<close>
  is the lowest performance point, \<open>full\<close> the full ceiling (the configured maximum),
  \<open>acc\<close> the integral and \<open>c\<close> the ceiling before the poll. For the transition from
  SoftThrottle to Recovery the table resets the integral and names no ceiling: \<open>None\<close>.
  Where a line of the table names no ceiling for another transition (SoftThrottle to
  HardThrottle, HardThrottle to SoftThrottle, Recovery to Normal or to SoftThrottle), the
  ceiling is the one the table gives for the state entered.
\<close>

fun spec_thermal_integral ::
  "int \<Rightarrow> int \<Rightarrow> int \<Rightarrow> int \<Rightarrow> zen_thermal_state \<Rightarrow> int \<Rightarrow> int \<Rightarrow> int" where
  "spec_thermal_integral soft hard hyst fully_safe ZEN_THERMAL_NORMAL acc t =
     (if t \<ge> hard then acc
      else if t \<ge> soft then spec_pi_integral 1000 soft acc t
      else acc)"
| "spec_thermal_integral soft hard hyst fully_safe ZEN_THERMAL_SOFT_THROTTLE acc t =
     (if t \<ge> hard then acc
      else if t < soft - hyst then 0
      else spec_pi_integral 1000 soft acc t)"
| "spec_thermal_integral soft hard hyst fully_safe ZEN_THERMAL_HARD_THROTTLE acc t =
     (if t < hard - hyst then spec_pi_integral 1000 soft acc t
      else acc)"
| "spec_thermal_integral soft hard hyst fully_safe ZEN_THERMAL_RECOVERY acc t =
     (if t < fully_safe then acc
      else if t \<ge> soft then spec_pi_integral 1000 soft acc t
      else acc)"

fun spec_thermal_ceiling ::
  "int \<Rightarrow> int \<Rightarrow> int \<Rightarrow> int \<Rightarrow> int \<Rightarrow> int \<Rightarrow> zen_thermal_state \<Rightarrow> int \<Rightarrow> int \<Rightarrow> int \<Rightarrow> int option" where
  "spec_thermal_ceiling lowest full soft hard hyst fully_safe ZEN_THERMAL_NORMAL acc c t =
     (if t \<ge> hard then Some lowest
      else if t \<ge> soft then Some (spec_pi_ceiling 50 10 1000 1000 full soft acc t)
      else Some full)"
| "spec_thermal_ceiling lowest full soft hard hyst fully_safe ZEN_THERMAL_SOFT_THROTTLE acc c t =
     (if t \<ge> hard then Some lowest
      else if t < soft - hyst then None
      else Some (spec_pi_ceiling 50 10 1000 1000 full soft acc t))"
| "spec_thermal_ceiling lowest full soft hard hyst fully_safe ZEN_THERMAL_HARD_THROTTLE acc c t =
     (if t < hard - hyst then Some (spec_pi_ceiling 50 10 1000 1000 full soft acc t)
      else Some lowest)"
| "spec_thermal_ceiling lowest full soft hard hyst fully_safe ZEN_THERMAL_RECOVERY acc c t =
     (if t < fully_safe then Some full
      else if t \<ge> soft then Some (spec_pi_ceiling 50 10 1000 1000 full soft acc t)
      else Some (min (c + 10) full))"

section \<open>A core for the examples\<close>

text \<open>
  A core with two enabled P-states, 300 MHz and 200 MHz at VID 20 (1050 mV), as
  \<open>zen_freq_init_cpu\<close> builds it from the two register values of \<open>example_rdmsr\<close>; the
  cpufreq core holds 300 MHz as the current frequency.
\<close>

definition example_rdmsr :: "nat \<Rightarrow> u64 option" where
  "example_rdmsr i =
     (if i = 0 then Some 0x800000000000A00C
      else if i = 1 then Some 0x800000000000A008
      else None)"

definition example_policy0 :: cpufreq_policy where
  "example_policy0 =
     \<lparr> policy_cpu = 0, cur = 300000, policy_min = 0, policy_max = 0, driver_data = None \<rparr>"

definition example_core :: zen_freq_cpu where
  "example_core =
     \<lparr> cpu = 0,
       pstates =
         [\<lparr> pstate = 0, freq = 300000, voltage = 1050, vid = 20, fid = 12, did = 0,
             div_val = 0, en = True, boost = False, safe = True \<rparr>,
          \<lparr> pstate = 1, freq = 200000, voltage = 1050, vid = 20, fid = 8, did = 0,
             div_val = 0, en = True, boost = False, safe = True \<rparr>],
       boost_states = [], max_freq = 300000, min_freq = 200000, nominal_freq = 300000,
       highest_perf = 255, lowest_perf = 0, nominal_perf = 128, cur_pstate = 0,
       cur_freq = 0, perf_target = Some zeroed_target,
       freq_table_rcu = Some [200000, 300000],
       thermal_state = ZEN_THERMAL_NORMAL, thermal_integral = 0,
       thermal_throttle_perf = 255, last_temp = 0, io_boost_active = False,
       io_boost_expire = 0, last_io_wait = 0, util_low_since = 0, dynamic_epp = 128,
       epp_mode = 0, boost_supported = False, boost_enabled = True,
       stats = zeroed_stats \<rparr>"

definition example_policy :: cpufreq_policy where
  "example_policy =
     \<lparr> policy_cpu = 0, cur = 300000, policy_min = 200000, policy_max = 300000,
       driver_data = Some example_core \<rparr>"

definition example_soft_core :: zen_freq_cpu where
  "example_soft_core = zen_thermal_check_cpu default_params 0 85 example_core"

text \<open>
  A second core: P-state 0 carries VID 3, that is 1475 mV, above the default ceiling of
  1450 mV, so \<open>zen_freq_init_cpu\<close> leaves it marked unsafe and counts one clamp.
\<close>

definition example_unsafe_rdmsr :: "nat \<Rightarrow> u64 option" where
  "example_unsafe_rdmsr i =
     (if i = 0 then Some 0x800000000000180C
      else if i = 1 then Some 0x800000000000A008
      else None)"

definition example_unsafe_core :: zen_freq_cpu where
  "example_unsafe_core =
     example_core
       \<lparr> pstates :=
           [\<lparr> pstate = 0, freq = 300000, voltage = 1475, vid = 3, fid = 12, did = 0,
               div_val = 0, en = True, boost = False, safe = False \<rparr>,
            \<lparr> pstate = 1, freq = 200000, voltage = 1050, vid = 20, fid = 8, did = 0,
               div_val = 0, en = True, boost = False, safe = True \<rparr>],
         stats := zeroed_stats\<lparr>voltage_clamps := 1\<rparr> \<rparr>"

definition example_unsafe_policy :: cpufreq_policy where
  "example_unsafe_policy = example_policy\<lparr>driver_data := Some example_unsafe_core\<rparr>"

text \<open>
  A third core: both P-states carry VID 3, so discovery leaves both marked unsafe.
\<close>

definition example_all_unsafe_rdmsr :: "nat \<Rightarrow> u64 option" where
  "example_all_unsafe_rdmsr i =
     (if i = 0 then Some 0x800000000000180C
      else if i = 1 then Some 0x8000000000001808
      else None)"

definition example_all_unsafe_core :: zen_freq_cpu where
  "example_all_unsafe_core =
     example_core
       \<lparr> pstates :=
           [\<lparr> pstate = 0, freq = 300000, voltage = 1475, vid = 3, fid = 12, did = 0,
               div_val = 0, en = True, boost = False, safe = False \<rparr>,
            \<lparr> pstate = 1, freq = 200000, voltage = 1475, vid = 3, fid = 8, did = 0,
               div_val = 0, en = True, boost = False, safe = False \<rparr>],
         stats := zeroed_stats\<lparr>voltage_clamps := 2\<rparr> \<rparr>"

definition example_all_unsafe_policy :: cpufreq_policy where
  "example_all_unsafe_policy = example_policy\<lparr>driver_data := Some example_all_unsafe_core\<rparr>"

text \<open>
  Rewriting the \<open>safe\<close> marks of a core's P-states, every other field unchanged.
\<close>

definition mark_safe :: "(zen_pstate \<Rightarrow> bool) \<Rightarrow> zen_freq_cpu \<Rightarrow> zen_freq_cpu" where
  "mark_safe g zcpu = zcpu\<lparr>pstates := map (\<lambda>ps. ps\<lparr>safe := g ps\<rparr>) (pstates zcpu)\<rparr>"

text \<open>
  What discovery establishes for good: \<open>zen_freq_get_pstate_info\<close> sets the performance
  range to 0 and 255, and every frequency it decodes is at most 1575000 kHz (a 6-bit
  frequency id times 25 MHz), the minimum being below the maximum once a P-state was found.
  No other function writes these fields.
\<close>

definition discovered :: "zen_freq_cpu \<Rightarrow> bool" where
  "discovered zcpu =
     (lowest_perf zcpu = 0 \<and> highest_perf zcpu = 255 \<and>
      min_freq zcpu \<le> max_freq zcpu \<and> max_freq zcpu \<le> 1575000)"

text \<open>
  The example core after one poll at 95 degrees, which puts it in HardThrottle with the
  ceiling at \<open>lowest_perf\<close>, and the policy of the cpufreq core pointing to it.
\<close>

definition example_hard_core :: zen_freq_cpu where
  "example_hard_core = zen_thermal_check_cpu default_params 0 95 example_core"

definition example_hard_policy :: cpufreq_policy where
  "example_hard_policy = example_policy\<lparr>driver_data := Some example_hard_core\<rparr>"

text \<open>
  The default parameters with \<open>max_perf\<close> lowered to 200, and the example core after one
  poll at 70 degrees under them.
\<close>

definition example_capped_params :: zen_params where
  "example_capped_params = default_params\<lparr>zen_freq_max_perf := 200\<rparr>"

definition example_capped_core :: zen_freq_cpu where
  "example_capped_core = zen_thermal_check_cpu example_capped_params 0 70 example_core"


text \<open>
  Parameter settings with the soft limit at 48 degrees, with the soft limit at 2 degrees
  and with the hard limit at 2 degrees (the limits are module parameters of type \<open>uint\<close>,
  taken as they come), and the example core in Recovery, where the poll at 76 degrees
  took it from SoftThrottle with 200 in the stack slot.
\<close>

definition example_warm_params :: zen_params where
  "example_warm_params = default_params\<lparr>zen_freq_soft_temp := 48\<rparr>"

definition example_low_soft_params :: zen_params where
  "example_low_soft_params = default_params\<lparr>zen_freq_soft_temp := 2\<rparr>"

definition example_low_hard_params :: zen_params where
  "example_low_hard_params = default_params\<lparr>zen_freq_hard_temp := 2\<rparr>"

definition example_recovery_core :: zen_freq_cpu where
  "example_recovery_core = zen_thermal_check_cpu default_params 200 76 example_soft_core"

section \<open>Properties\<close>

subsection \<open>Evaluation and bookkeeping lemmas\<close>

lemmas zen_constants =
  ZEN_THERMAL_SOFT_LIMIT_def ZEN_THERMAL_HARD_LIMIT_def ZEN_THERMAL_HYSTERESIS_def
  ZEN_THERMAL_SAFE_LIMIT_def ZEN_THERMAL_KP_def ZEN_THERMAL_KI_def
  ZEN_THERMAL_INTEGRAL_MAX_def ZEN_VOLTAGE_MAX_SAFE_def ZEN_VOLTAGE_BOOST_MAX_def
  ZEN_EPP_BALANCE_def ZEN_FREQ_MODE_BALANCE_def ZEN_FREQ_BASE_def ZEN_FREQ_MULTIPLIER_def

lemmas pstate_fields =
  PSTATE_DEF_DID_def PSTATE_DEF_FID_def PSTATE_DEF_CUR_DIV_def PSTATE_DEF_VID_def
  PSTATE_DEF_EN_def

lemma example_init:
  "zen_freq_init_cpu default_params example_rdmsr False True True True example_policy0 =
   Inr example_policy"
  by (simp add: zen_freq_init_cpu_def zen_freq_get_pstate_info_def pstate_info_round_def
      example_rdmsr_def example_policy0_def example_policy_def example_core_def
      zeroed_cpu_def zeroed_stats_def default_params_def zen_constants Let_def
      zen_freq_calc_freq_from_pstate_def pstate_fields zen_voltage_check_all_pstates_def
      zen_voltage_verify_pstate_def ZEN_VID_TO_MV_def zen_freq_build_freq_table_def)

lemma example_soft_core_eq:
  "example_soft_core =
     example_core\<lparr> last_temp := 85, thermal_integral := 5,
                   thermal_state := ZEN_THERMAL_SOFT_THROTTLE \<rparr>"
  by (simp add: example_soft_core_def zen_thermal_check_cpu_def thermal_switch_def
      zen_thermal_pi_controller_def s32_div_def ZEN_CLAMP_def signed_divide_int_def
      example_core_def default_params_def zen_constants Let_def)

lemma pstate_info_round_boost_states:
  "boost_states (pstate_info_round rdmsr i zcpu) = boost_states zcpu"
  by (simp add: pstate_info_round_def Let_def split: option.splits)

lemma get_pstate_info_state:
  "zen_freq_get_pstate_info rdmsr cpb z0 = Inr zcpu \<Longrightarrow>
   thermal_state zcpu = ZEN_THERMAL_NORMAL \<and> thermal_throttle_perf zcpu = 255 \<and>
   lowest_perf zcpu = 0 \<and> highest_perf zcpu = 255 \<and> boost_states zcpu = []"
  by (auto simp add: zen_freq_get_pstate_info_def Let_def pstate_info_round_boost_states split: if_splits)

lemma check_all_fields:
  "thermal_state (zen_voltage_check_all_pstates prm zcpu) = thermal_state zcpu \<and>
   thermal_throttle_perf (zen_voltage_check_all_pstates prm zcpu) = thermal_throttle_perf zcpu \<and>
   lowest_perf (zen_voltage_check_all_pstates prm zcpu) = lowest_perf zcpu \<and>
   highest_perf (zen_voltage_check_all_pstates prm zcpu) = highest_perf zcpu"
  by (simp add: zen_voltage_check_all_pstates_def Let_def split: prod.splits)

lemma init_cpu_state:
  assumes "zen_freq_init_cpu prm rdmsr cpb a1 a2 a3 policy = Inr policy'"
  shows "\<exists>zcpu. driver_data policy' = Some zcpu \<and>
           thermal_state zcpu = ZEN_THERMAL_NORMAL \<and> thermal_throttle_perf zcpu = 255 \<and>
           lowest_perf zcpu = 0 \<and> highest_perf zcpu = 255 \<and>
           perf_target zcpu = Some zeroed_target"
proof -
  let ?z0 = "zeroed_cpu\<lparr> cpu := policy_cpu policy,
                  boost_enabled := zen_freq_boost_enabled prm, cur_freq := 0 \<rparr>"
  from assms obtain z1 where z1: "zen_freq_get_pstate_info rdmsr cpb ?z0 = Inr z1"
    by (auto simp add: zen_freq_init_cpu_def Let_def split: if_splits sum.splits)
  from assms z1 have p: "policy' = policy\<lparr> driver_data :=
        Some ((zen_voltage_check_all_pstates prm z1)
               \<lparr>freq_table_rcu := Some (map freq (rev (pstates (zen_voltage_check_all_pstates prm z1)))),
                perf_target := Some zeroed_target\<rparr>),
        policy_min := min_freq (zen_voltage_check_all_pstates prm z1),
        policy_max := max_freq (zen_voltage_check_all_pstates prm z1) \<rparr>"
    by (auto simp add: zen_freq_init_cpu_def zen_freq_build_freq_table_def Let_def
        split: if_splits sum.splits)
  show ?thesis
    using get_pstate_info_state [OF z1] check_all_fields [of prm z1] by (simp add: p)
qed

lemma example_capped_core_eq:
  "example_capped_core =
     example_core\<lparr> last_temp := 70, thermal_throttle_perf := 200,
                   stats := zeroed_stats\<lparr>thermal_events := 1\<rparr> \<rparr>"
  by (simp add: example_capped_core_def example_capped_params_def zen_thermal_check_cpu_def
      thermal_switch_def example_core_def default_params_def zen_constants zeroed_stats_def
      Let_def)

lemma pstate_info_round_integral:
  "thermal_integral (pstate_info_round rdmsr i zcpu) = thermal_integral zcpu"
  by (simp add: pstate_info_round_def Let_def split: option.splits)

lemma get_pstate_info_integral:
  "zen_freq_get_pstate_info rdmsr cpb z0 = Inr zcpu \<Longrightarrow>
   thermal_integral zcpu = thermal_integral z0"
  by (auto simp add: zen_freq_get_pstate_info_def Let_def pstate_info_round_integral
      split: if_splits)

lemma check_all_integral:
  "thermal_integral (zen_voltage_check_all_pstates prm zcpu) = thermal_integral zcpu"
  by (simp add: zen_voltage_check_all_pstates_def Let_def split: prod.splits)

lemma init_cpu_integral:
  assumes "zen_freq_init_cpu prm rdmsr cpb a1 a2 a3 policy = Inr policy'"
  shows "\<exists>zcpu. driver_data policy' = Some zcpu \<and> thermal_integral zcpu = 0"
proof -
  let ?z0 = "zeroed_cpu\<lparr> cpu := policy_cpu policy,
                  boost_enabled := zen_freq_boost_enabled prm, cur_freq := 0 \<rparr>"
  from assms obtain z1 where z1: "zen_freq_get_pstate_info rdmsr cpb ?z0 = Inr z1"
    by (auto simp add: zen_freq_init_cpu_def Let_def split: if_splits sum.splits)
  from assms z1 have p: "policy' = policy\<lparr> driver_data :=
        Some ((zen_voltage_check_all_pstates prm z1)
               \<lparr>freq_table_rcu := Some (map freq (rev (pstates (zen_voltage_check_all_pstates prm z1)))),
                perf_target := Some zeroed_target\<rparr>),
        policy_min := min_freq (zen_voltage_check_all_pstates prm z1),
        policy_max := max_freq (zen_voltage_check_all_pstates prm z1) \<rparr>"
    by (auto simp add: zen_freq_init_cpu_def zen_freq_build_freq_table_def Let_def
        split: if_splits sum.splits)
  show ?thesis
    using get_pstate_info_integral [OF z1] check_all_integral [of prm z1]
    by (simp add: p zeroed_cpu_def)
qed

subsection \<open>Thermal state machine\<close>

lemma thermal_switch_state:
  assumes "ZEN_THERMAL_HYSTERESIS \<le> zen_freq_soft_temp prm"
    and "ZEN_THERMAL_HYSTERESIS \<le> zen_freq_hard_temp prm"
  shows "fst (thermal_switch prm zcpu temp) =
         spec_thermal_next (uint (zen_freq_soft_temp prm)) (uint (zen_freq_hard_temp prm))
           (uint ZEN_THERMAL_HYSTERESIS) (uint ZEN_THERMAL_SAFE_LIMIT) (thermal_state zcpu) (uint temp)"
proof -
  have s: "uint (zen_freq_soft_temp prm - ZEN_THERMAL_HYSTERESIS) =
           uint (zen_freq_soft_temp prm) - uint ZEN_THERMAL_HYSTERESIS"
    using assms(1) by (simp add: uint_minus_simple_alt)
  have h: "uint (zen_freq_hard_temp prm - ZEN_THERMAL_HYSTERESIS) =
           uint (zen_freq_hard_temp prm) - uint ZEN_THERMAL_HYSTERESIS"
    using assms(2) by (simp add: uint_minus_simple_alt)
  show ?thesis
    by (cases "thermal_state zcpu")
       (simp_all add: thermal_switch_def word_le_def word_less_def s h split: prod.splits)
qed

lemma thermal_check_state:
  "temp \<noteq> 0 \<Longrightarrow>
   thermal_state (zen_thermal_check_cpu prm stack temp zcpu) =
   fst (thermal_switch prm (zcpu\<lparr>last_temp := temp\<rparr>) temp)"
  by (simp add: zen_thermal_check_cpu_def Let_def split: prod.splits)

lemma thermal_trace_spec:
  assumes "ZEN_THERMAL_HYSTERESIS \<le> zen_freq_soft_temp prm"
    and "ZEN_THERMAL_HYSTERESIS \<le> zen_freq_hard_temp prm"
  shows "\<forall>p \<in> set polls. snd p \<noteq> 0 \<Longrightarrow>
     thermal_trace prm polls zcpu =
     spec_thermal_trace (uint (zen_freq_soft_temp prm)) (uint (zen_freq_hard_temp prm))
           (uint ZEN_THERMAL_HYSTERESIS) (uint ZEN_THERMAL_SAFE_LIMIT) (thermal_state zcpu)
           (map (\<lambda>p. uint (snd p)) polls)"
proof (induction polls arbitrary: zcpu)
  case Nil
  then show ?case by simp
next
  case (Cons p polls)
  obtain stack temp where p: "p = (stack, temp)" by (cases p)
  from Cons.prems p have t: "temp \<noteq> 0" by simp
  have st: "thermal_state (zen_thermal_check_cpu prm stack temp zcpu) =
        spec_thermal_next (uint (zen_freq_soft_temp prm)) (uint (zen_freq_hard_temp prm))
           (uint ZEN_THERMAL_HYSTERESIS) (uint ZEN_THERMAL_SAFE_LIMIT) (thermal_state zcpu) (uint temp)"
    using thermal_check_state [OF t] thermal_switch_state [OF assms] by simp
  from Cons.prems have rest: "\<forall>p \<in> set polls. snd p \<noteq> 0" by simp
  show ?case
    using Cons.IH [OF rest, of "zen_thermal_check_cpu prm stack temp zcpu"] st
    by (simp add: p Let_def)
qed

lemma thermal_check_unfold:
  "temp \<noteq> 0 \<Longrightarrow>
   zen_thermal_check_cpu prm stack temp zcpu =
   (let sw = thermal_switch prm (zcpu\<lparr>last_temp := temp\<rparr>) temp;
        new_max_perf = (case fst (snd sw) of Some v \<Rightarrow> v | None \<Rightarrow> stack);
        z2 = snd (snd sw)
    in (if new_max_perf \<noteq> thermal_throttle_perf z2
        then z2\<lparr>thermal_throttle_perf := new_max_perf,
                stats := (stats z2)\<lparr>thermal_events := thermal_events (stats z2) + 1\<rparr>\<rparr>
        else z2)\<lparr>thermal_state := fst sw\<rparr>)"
  by (simp add: zen_thermal_check_cpu_def Let_def case_prod_beta)

lemma thermal_check_ceiling:
  "temp \<noteq> 0 \<Longrightarrow>
   thermal_throttle_perf (zen_thermal_check_cpu prm stack temp zcpu) =
   (case fst (snd (thermal_switch prm (zcpu\<lparr>last_temp := temp\<rparr>) temp)) of
      Some v \<Rightarrow> v | None \<Rightarrow> stack)"
  by (simp add: thermal_check_unfold Let_def)

text \<open>
  Signed 32-bit arithmetic that stays in range is integer arithmetic.
\<close>

lemma sint_of_int_s32:
  "- (2 ^ 31) \<le> x \<Longrightarrow> x < 2 ^ 31 \<Longrightarrow> sint (word_of_int x :: 32 word) = x"
  by (simp add: sint_sbintrunc' signed_take_bit_int_eq_self)

lemma s32_add_sint:
  "- (2 ^ 31) \<le> sint a + sint b \<Longrightarrow> sint a + sint b < 2 ^ 31 \<Longrightarrow>
   sint (a + b :: 32 word) = sint a + sint b"
  by (simp add: sint_word_ariths signed_take_bit_int_eq_self)

lemma s32_diff_sint:
  "- (2 ^ 31) \<le> sint a - sint b \<Longrightarrow> sint a - sint b < 2 ^ 31 \<Longrightarrow>
   sint (a - b :: 32 word) = sint a - sint b"
  by (simp add: sint_word_ariths signed_take_bit_int_eq_self)

lemma s32_mult_sint:
  "- (2 ^ 31) \<le> sint a * sint b \<Longrightarrow> sint a * sint b < 2 ^ 31 \<Longrightarrow>
   sint (a * b :: 32 word) = sint a * sint b"
  by (simp add: sint_word_ariths signed_take_bit_int_eq_self)

lemma div_1000_bounds:
  assumes "0 \<le> (x :: int)" and "x \<le> b * 1000"
  shows "0 \<le> x div 1000 \<and> x div 1000 \<le> b"
proof -
  have "x div 1000 \<le> (b * 1000) div 1000"
    using assms(2) by (intro zdiv_mono1) simp_all
  moreover have "0 \<le> x div 1000"
    using assms(1) by (simp add: pos_imp_zdiv_nonneg_iff)
  ultimately show ?thesis by simp
qed

lemma sdiv_1000_bounds:
  assumes "- (b * 1000) \<le> x" and "x \<le> b * 1000"
  shows "- b \<le> x sdiv 1000 \<and> x sdiv (1000 :: int) \<le> b"
proof (cases "0 \<le> x")
  case True
  then have "x sdiv 1000 = x div 1000"
    by (simp add: signed_divide_int_def sgn_if)
  then show ?thesis using div_1000_bounds [of x b] True assms by simp
next
  case False
  then have e: "x sdiv 1000 = - ((- x) div 1000)"
    by (simp add: signed_divide_int_def sgn_if)
  show ?thesis using div_1000_bounds [of "- x" b] assms False unfolding e by simp
qed

lemma s32_div_sint:
  "sint (s32_div a 1000) = sint a sdiv 1000"
proof -
  have "- (2 ^ 31) \<le> sint a" "sint a < 2 ^ 31"
    using sint_ge [of a] sint_lt [of a] by simp_all
  then have "- 2147484 \<le> sint a sdiv 1000 \<and> sint a sdiv 1000 \<le> 2147484"
    using sdiv_1000_bounds [of 2147484 "sint a"] by simp
  then have "sint (word_of_int (sint a sdiv 1000) :: 32 word) = sint a sdiv 1000"
    by (intro sint_of_int_s32) simp_all
  then show ?thesis by (simp add: s32_div_def)
qed

lemma u32_sub_sint:
  assumes "uint (a :: 32 word) \<le> 127" and "uint (b :: 32 word) * 50 < 2 ^ 31"
  shows "sint (a - b) = uint a - uint b"
proof -
  have "a - b = word_of_int (uint a - uint b)" by simp
  moreover have "sint (word_of_int (uint a - uint b) :: 32 word) = uint a - uint b"
  proof (rule sint_of_int_s32)
    have a: "0 \<le> uint a" and b: "0 \<le> uint b" by simp_all
    have b': "uint b * 50 < 2147483648" using assms(2) by simp
    have "- 2147483648 \<le> uint a - uint b" using a b b' by linarith
    then show "- (2 ^ 31) \<le> uint a - uint b" by simp
    have "uint a - uint b < 2147483648" using assms(1) b by linarith
    then show "uint a - uint b < 2 ^ 31" by simp
  qed
  ultimately show ?thesis by simp
qed

lemma s32_to_u8:
  assumes "0 \<le> sint (w :: 32 word)" and "sint w \<le> 255"
  shows "uint (ucast w :: 8 word) = sint w"
proof -
  define k where "k = sint w"
  have w: "w = word_of_int k" by (simp add: k_def)
  have k: "0 \<le> k" "k \<le> 255" using assms by (simp_all add: k_def)
  have "uint (ucast (word_of_int k :: 32 word) :: 8 word) = k"
    using k by (simp add: unsigned_ucast_eq uint_word_of_int take_bit_int_eq_self)
  then show ?thesis by (simp add: w [symmetric] k_def)
qed

text \<open>
  The controller of the source computes the controller of the specification, for a sample
  of at most 127 degrees, a soft limit whose 50-fold fits in 31 bits and an integral
  within its clamp.
\<close>

lemma pi_controller_core:
  fixes e integral :: s32
  assumes E_lo: "- 42949672 \<le> sint e" and E_hi: "sint e \<le> 127"
    and lo: "- 1000 \<le> sint integral" and hi: "sint integral \<le> 1000"
  defines "acc \<equiv> (if ZEN_THERMAL_INTEGRAL_MAX <s integral + e then ZEN_THERMAL_INTEGRAL_MAX
                  else if integral + e <s - ZEN_THERMAL_INTEGRAL_MAX then - ZEN_THERMAL_INTEGRAL_MAX
                  else integral + e)"
  defines "adj \<equiv> s32_div (e * ZEN_THERMAL_KP) 1000 + s32_div (acc * ZEN_THERMAL_KI) 1000"
  shows "sint acc = spec_clamp (sint integral + sint e) (- 1000) 1000"
    and "sint adj = (sint e * 50) sdiv 1000 +
                    (spec_clamp (sint integral + sint e) (- 1000) 1000 * 10) sdiv 1000"
    and "uint (if 0 <s adj then ucast (255 - ZEN_CLAMP adj 0 255) else (255 :: 8 word)) =
         (if 0 < sint adj then 255 - spec_clamp (sint adj) 0 255 else 255)"
proof -
  define E where "E = sint e"
  define I where "I = sint integral"
  define A where "A = spec_clamp (I + E) (- 1000) 1000"
  have sum: "sint (integral + e) = I + E"
    unfolding I_def E_def using E_lo E_hi lo hi by (intro s32_add_sint) simp_all
  have A_b: "- 1000 \<le> A \<and> A \<le> 1000"
    by (simp add: A_def spec_clamp_def)
  show sA: "sint acc = spec_clamp (sint integral + sint e) (- 1000) 1000"
    unfolding acc_def I_def [symmetric] E_def [symmetric]
    by (simp add: word_sless_alt sum ZEN_THERMAL_INTEGRAL_MAX_def spec_clamp_def)
  then have sA': "sint acc = A" by (simp add: A_def I_def E_def)
  have sE50: "sint (e * ZEN_THERMAL_KP) = E * 50"
    unfolding ZEN_THERMAL_KP_def E_def
    using E_lo E_hi s32_mult_sint [of e 50] by simp
  have sA10: "sint (acc * ZEN_THERMAL_KI) = A * 10"
    unfolding ZEN_THERMAL_KI_def
    using A_b sA' s32_mult_sint [of acc 10] by simp
  have P_b: "- 50000000 \<le> (E * 50) sdiv 1000 \<and> (E * 50) sdiv 1000 \<le> 50000000"
    using E_lo E_hi sdiv_1000_bounds [of 50000000 "E * 50"] by (simp add: E_def)
  have Q_b: "- 10000 \<le> (A * 10) sdiv 1000 \<and> (A * 10) sdiv 1000 \<le> 10000"
    using A_b sdiv_1000_bounds [of 10000 "A * 10"] by simp
  have "sint adj = (E * 50) sdiv 1000 + (A * 10) sdiv 1000"
    unfolding adj_def
    using P_b Q_b
      s32_add_sint [of "s32_div (e * ZEN_THERMAL_KP) 1000" "s32_div (acc * ZEN_THERMAL_KI) 1000"]
    by (simp add: s32_div_sint sE50 sA10)
  then show "sint adj = (sint e * 50) sdiv 1000 +
                    (spec_clamp (sint integral + sint e) (- 1000) 1000 * 10) sdiv 1000"
    by (simp add: A_def I_def E_def)
  show "uint (if 0 <s adj then ucast (255 - ZEN_CLAMP adj 0 255) else (255 :: 8 word)) =
         (if 0 < sint adj then 255 - spec_clamp (sint adj) 0 255 else 255)"
  proof (cases "0 < sint adj")
    case True
    have c: "sint (ZEN_CLAMP adj 0 255) = spec_clamp (sint adj) 0 255"
      by (simp add: ZEN_CLAMP_def word_sless_alt spec_clamp_def)
    have cb: "0 \<le> spec_clamp (sint adj) 0 255 \<and> spec_clamp (sint adj) 0 255 \<le> 255"
      by (simp add: spec_clamp_def)
    have d: "sint (255 - ZEN_CLAMP adj 0 255) = 255 - spec_clamp (sint adj) 0 255"
      using cb s32_diff_sint [of 255 "ZEN_CLAMP adj 0 255"] by (simp add: c)
    have "uint (ucast (255 - ZEN_CLAMP adj 0 255) :: 8 word) = 255 - spec_clamp (sint adj) 0 255"
      using cb s32_to_u8 [of "255 - ZEN_CLAMP adj 0 255"] by (simp add: d)
    then show ?thesis using True by (simp add: word_sless_alt)
  next
    case False
    then show ?thesis by (simp add: word_sless_alt)
  qed
qed

lemma pi_controller_spec:
  assumes t: "temp \<le> 127"
    and s: "uint (zen_freq_soft_temp prm) * 50 < 2 ^ 31"
    and lo: "- 1000 \<le> sint (thermal_integral zcpu)"
    and hi: "sint (thermal_integral zcpu) \<le> 1000"
  shows "uint (fst (zen_thermal_pi_controller prm zcpu temp)) =
           spec_pi_ceiling 50 10 1000 1000 255 (uint (zen_freq_soft_temp prm))
             (sint (thermal_integral zcpu)) (uint temp)"
    and "sint (thermal_integral (snd (zen_thermal_pi_controller prm zcpu temp))) =
           spec_pi_integral 1000 (uint (zen_freq_soft_temp prm))
             (sint (thermal_integral zcpu)) (uint temp)"
proof -
  let ?e = "temp - zen_freq_soft_temp prm"
  let ?i = "thermal_integral zcpu"
  let ?acc = "(if ZEN_THERMAL_INTEGRAL_MAX <s ?i + ?e then ZEN_THERMAL_INTEGRAL_MAX
               else if ?i + ?e <s - ZEN_THERMAL_INTEGRAL_MAX then - ZEN_THERMAL_INTEGRAL_MAX
               else ?i + ?e)"
  let ?adj = "s32_div (?e * ZEN_THERMAL_KP) 1000 + s32_div (?acc * ZEN_THERMAL_KI) 1000"
  have t': "uint temp \<le> 127" using t by (simp add: word_le_def)
  have sE: "sint ?e = uint temp - uint (zen_freq_soft_temp prm)"
    using t' s by (rule u32_sub_sint)
  have s0: "0 \<le> uint (zen_freq_soft_temp prm)" and t0: "0 \<le> uint temp" by simp_all
  have s': "uint (zen_freq_soft_temp prm) * 50 < 2147483648" using s by simp
  have E_lo: "- 42949672 \<le> sint ?e" unfolding sE using t0 s' by linarith
  have E_hi: "sint ?e \<le> 127" unfolding sE using t' s0 by linarith
  note core = pi_controller_core [OF E_lo E_hi lo hi]
  have f: "fst (zen_thermal_pi_controller prm zcpu temp) =
           (if 0 <s ?adj then ucast (255 - ZEN_CLAMP ?adj 0 255) else 255)"
    unfolding zen_thermal_pi_controller_def Let_def fst_conv by (rule refl)
  have g: "thermal_integral (snd (zen_thermal_pi_controller prm zcpu temp)) = ?acc"
    unfolding zen_thermal_pi_controller_def Let_def snd_conv by simp
  show "uint (fst (zen_thermal_pi_controller prm zcpu temp)) =
           spec_pi_ceiling 50 10 1000 1000 255 (uint (zen_freq_soft_temp prm))
             (sint (thermal_integral zcpu)) (uint temp)"
    unfolding f core(3) core(2) sE spec_pi_ceiling_def spec_pi_integral_def Let_def
    by simp
  show "sint (thermal_integral (snd (zen_thermal_pi_controller prm zcpu temp))) =
           spec_pi_integral 1000 (uint (zen_freq_soft_temp prm))
             (sint (thermal_integral zcpu)) (uint temp)"
    unfolding g core(1) sE spec_pi_integral_def by simp
qed

lemma spec_pi_integral_range:
  "- 1000 \<le> spec_pi_integral 1000 soft acc t \<and> spec_pi_integral 1000 soft acc t \<le> 1000"
  by (simp add: spec_pi_integral_def spec_clamp_def)

lemma ramp_small:
  assumes "uint (c :: u8) < 245"
  shows "uint (c + 10) = uint c + 10"
  using uint_add_lem [of c 10] assms by simp

lemma unat_lt_245: "(unat (c :: u8) < 245) = (uint c < 245)"
proof -
  have "(c < 245) = (unat c < 245)" by (simp add: word_less_nat_alt)
  moreover have "(c < 245) = (uint c < 245)" by (simp add: word_less_def)
  ultimately show ?thesis by simp
qed

lemma ramp_uint:
  "uint (if unat (c :: u8) + 10 < 255 then c + 10 else 255) = min (uint c + 10) 255"
  by (cases "uint c < 245") (simp_all add: unat_lt_245 ramp_small)

lemma thermal_switch_integral:
  assumes soft: "ZEN_THERMAL_HYSTERESIS \<le> zen_freq_soft_temp prm"
    and hard: "ZEN_THERMAL_HYSTERESIS \<le> zen_freq_hard_temp prm"
    and t: "temp \<le> 127"
    and s: "uint (zen_freq_soft_temp prm) * 50 < 2 ^ 31"
    and lo: "- 1000 \<le> sint (thermal_integral zcpu)"
    and hi: "sint (thermal_integral zcpu) \<le> 1000"
  shows "sint (thermal_integral (snd (snd (thermal_switch prm zcpu temp)))) =
         spec_thermal_integral (uint (zen_freq_soft_temp prm)) (uint (zen_freq_hard_temp prm)) 3 75
           (thermal_state zcpu) (sint (thermal_integral zcpu)) (uint temp)"
proof -
  have sh: "uint (zen_freq_soft_temp prm - 3) = uint (zen_freq_soft_temp prm) - 3"
    using soft by (simp add: uint_minus_simple_alt zen_constants)
  have hh: "uint (zen_freq_hard_temp prm - 3) = uint (zen_freq_hard_temp prm) - 3"
    using hard by (simp add: uint_minus_simple_alt zen_constants)
  note pi = pi_controller_spec(2) [OF t s lo hi]
  show ?thesis
    by (cases "thermal_state zcpu")
       (simp_all add: thermal_switch_def case_prod_beta word_le_def word_less_def sh hh pi
          zen_constants)
qed

lemma thermal_switch_ceiling:
  assumes soft: "ZEN_THERMAL_HYSTERESIS \<le> zen_freq_soft_temp prm"
    and hard: "ZEN_THERMAL_HYSTERESIS \<le> zen_freq_hard_temp prm"
    and t: "temp \<le> 127"
    and s: "uint (zen_freq_soft_temp prm) * 50 < 2 ^ 31"
    and m: "zen_freq_max_perf prm = 255"
    and lo: "- 1000 \<le> sint (thermal_integral zcpu)"
    and hi: "sint (thermal_integral zcpu) \<le> 1000"
  shows "map_option uint (fst (snd (thermal_switch prm zcpu temp))) =
         spec_thermal_ceiling (uint (lowest_perf zcpu)) 255
           (uint (zen_freq_soft_temp prm)) (uint (zen_freq_hard_temp prm)) 3 75
           (thermal_state zcpu) (sint (thermal_integral zcpu))
           (uint (thermal_throttle_perf zcpu)) (uint temp)"
proof -
  have sh: "uint (zen_freq_soft_temp prm - 3) = uint (zen_freq_soft_temp prm) - 3"
    using soft by (simp add: uint_minus_simple_alt zen_constants)
  have hh: "uint (zen_freq_hard_temp prm - 3) = uint (zen_freq_hard_temp prm) - 3"
    using hard by (simp add: uint_minus_simple_alt zen_constants)
  note pi = pi_controller_spec(1) [OF t s lo hi]
  show ?thesis
    by (cases "thermal_state zcpu")
       (simp_all add: thermal_switch_def case_prod_beta word_le_def word_less_def sh hh pi m
          unat_lt_245 ramp_small zen_constants)
qed

lemma thermal_check_integral:
  "temp \<noteq> 0 \<Longrightarrow>
   thermal_integral (zen_thermal_check_cpu prm stack temp zcpu) =
   thermal_integral (snd (snd (thermal_switch prm (zcpu\<lparr>last_temp := temp\<rparr>) temp)))"
  by (simp add: thermal_check_unfold Let_def)

lemma spec_thermal_integral_range:
  "- 1000 \<le> acc \<Longrightarrow> acc \<le> 1000 \<Longrightarrow>
   - 1000 \<le> spec_thermal_integral soft hard hyst fully_safe st acc t \<and>
   spec_thermal_integral soft hard hyst fully_safe st acc t \<le> 1000"
  using spec_pi_integral_range [of soft acc t] by (cases st) simp_all

lemma thermal_check_step:
  assumes soft: "3 \<le> zen_freq_soft_temp prm"
    and hard: "3 \<le> zen_freq_hard_temp prm"
    and v: "temp \<noteq> 0"
    and t: "temp \<le> 127"
    and s: "uint (zen_freq_soft_temp prm) * 50 < 2 ^ 31"
    and lo: "- 1000 \<le> sint (thermal_integral zcpu)"
    and hi: "sint (thermal_integral zcpu) \<le> 1000"
  shows "thermal_state (zen_thermal_check_cpu prm stack temp zcpu) =
           spec_thermal_next (uint (zen_freq_soft_temp prm)) (uint (zen_freq_hard_temp prm)) 3 75
             (thermal_state zcpu) (uint temp)"
    and "sint (thermal_integral (zen_thermal_check_cpu prm stack temp zcpu)) =
           spec_thermal_integral (uint (zen_freq_soft_temp prm)) (uint (zen_freq_hard_temp prm)) 3 75
             (thermal_state zcpu) (sint (thermal_integral zcpu)) (uint temp)"
    and "zen_freq_max_perf prm = 255 \<Longrightarrow>
         map_option uint (fst (snd (thermal_switch prm (zcpu\<lparr>last_temp := temp\<rparr>) temp))) =
           spec_thermal_ceiling (uint (lowest_perf zcpu)) 255
             (uint (zen_freq_soft_temp prm)) (uint (zen_freq_hard_temp prm)) 3 75
             (thermal_state zcpu) (sint (thermal_integral zcpu))
             (uint (thermal_throttle_perf zcpu)) (uint temp)"
proof -
  have soft': "ZEN_THERMAL_HYSTERESIS \<le> zen_freq_soft_temp prm"
    and hard': "ZEN_THERMAL_HYSTERESIS \<le> zen_freq_hard_temp prm"
    using soft hard by (simp_all add: zen_constants)
  let ?z1 = "zcpu\<lparr>last_temp := temp\<rparr>"
  have lo1: "- 1000 \<le> sint (thermal_integral ?z1)" and hi1: "sint (thermal_integral ?z1) \<le> 1000"
    using lo hi by simp_all
  show "thermal_state (zen_thermal_check_cpu prm stack temp zcpu) =
           spec_thermal_next (uint (zen_freq_soft_temp prm)) (uint (zen_freq_hard_temp prm)) 3 75
             (thermal_state zcpu) (uint temp)"
    using thermal_check_state [OF v, of prm stack zcpu]
      thermal_switch_state [OF soft' hard', of ?z1 temp]
    by (simp add: zen_constants)
  show "sint (thermal_integral (zen_thermal_check_cpu prm stack temp zcpu)) =
           spec_thermal_integral (uint (zen_freq_soft_temp prm)) (uint (zen_freq_hard_temp prm)) 3 75
             (thermal_state zcpu) (sint (thermal_integral zcpu)) (uint temp)"
    using thermal_switch_integral [OF soft' hard' t s lo1 hi1]
    by (simp add: thermal_check_integral [OF v])
  show "map_option uint (fst (snd (thermal_switch prm (zcpu\<lparr>last_temp := temp\<rparr>) temp))) =
           spec_thermal_ceiling (uint (lowest_perf zcpu)) 255
             (uint (zen_freq_soft_temp prm)) (uint (zen_freq_hard_temp prm)) 3 75
             (thermal_state zcpu) (sint (thermal_integral zcpu))
             (uint (thermal_throttle_perf zcpu)) (uint temp)"
    if m: "zen_freq_max_perf prm = 255"
    using thermal_switch_ceiling [OF soft' hard' t s m lo1 hi1] by simp
qed

lemma spec_sdiv_numeral:
  "(0 :: int) sdiv 1000 = 0" "(250 :: int) sdiv 1000 = 0" "(5050 :: int) sdiv 1000 = 5"
  by (simp_all add: signed_divide_int_def)

text \<open>
  C2, as amended. A core leaves \<open>zen_freq_init_cpu\<close> in \<open>ZEN_THERMAL_NORMAL\<close>, with a zero
  integral and the ceiling 255. When both limits are at least 3, the hysteresis, the states
  a core passes through over any sequence of polls with non-zero samples are those of the
  transition table of section 4.4 (hysteresis 3, fully-safe threshold 75), from whatever
  state it is in; with soft limit 80 and hard limit 90 the temperatures 70, 85, 95, 86, 76,
  70 give Normal, SoftThrottle, HardThrottle, SoftThrottle, Recovery, Normal, whatever the
  stack holds. A single poll with a non-zero sample of at most 127 degrees, a soft limit
  whose 50-fold fits in 31 bits, \<open>max_perf\<close> at 255 and the integral within 1000 of zero
  (which the poll preserves) moves the state, the integral and the ceiling as the table
  says: the integral is the controller's clamped sum, or zero on the way from SoftThrottle
  to Recovery, or unchanged; the ceiling is the lowest performance point, the controller's
  output for Kp = 50, Ki = 10 and scale 1000, the full ceiling 255, or the ramp of 10 capped
  at 255. On the way from SoftThrottle to Recovery the table names no ceiling, and the one
  stored is the stack byte (C10).
\<close>

theorem thermal_state_machine_follows_table:
  assumes init: "zen_freq_init_cpu prm0 rdmsr cpb a1 a2 a3 policy = Inr policy'"
    and soft: "3 \<le> zen_freq_soft_temp prm"
    and hard: "3 \<le> zen_freq_hard_temp prm"
    and valid: "0 \<notin> set (map snd polls)"
  shows "(\<exists>zcpu. driver_data policy' = Some zcpu \<and> thermal_state zcpu = ZEN_THERMAL_NORMAL \<and>
            thermal_integral zcpu = 0 \<and> thermal_throttle_perf zcpu = 255) \<and>
         (\<forall>zcpu. thermal_trace prm polls zcpu =
            spec_thermal_trace (uint (zen_freq_soft_temp prm)) (uint (zen_freq_hard_temp prm))
              3 75 (thermal_state zcpu) (map (\<lambda>p. uint (snd p)) polls)) \<and>
         (\<forall>zcpu s1 s2 s3 s4 s5 s6.
            zen_freq_soft_temp prm = 80 \<and> zen_freq_hard_temp prm = 90 \<and>
            thermal_state zcpu = ZEN_THERMAL_NORMAL \<longrightarrow>
            thermal_trace prm [(s1, 70), (s2, 85), (s3, 95), (s4, 86), (s5, 76), (s6, 70)] zcpu =
              [ZEN_THERMAL_NORMAL, ZEN_THERMAL_SOFT_THROTTLE, ZEN_THERMAL_HARD_THROTTLE,
               ZEN_THERMAL_SOFT_THROTTLE, ZEN_THERMAL_RECOVERY, ZEN_THERMAL_NORMAL]) \<and>
         (\<forall>zcpu stack temp.
            temp \<noteq> 0 \<and> temp \<le> 127 \<and>
            uint (zen_freq_soft_temp prm) * 50 < 2 ^ 31 \<and> zen_freq_max_perf prm = 255 \<and>
            - 1000 \<le> sint (thermal_integral zcpu) \<and> sint (thermal_integral zcpu) \<le> 1000 \<longrightarrow>
            thermal_state (zen_thermal_check_cpu prm stack temp zcpu) =
              spec_thermal_next (uint (zen_freq_soft_temp prm)) (uint (zen_freq_hard_temp prm))
                3 75 (thermal_state zcpu) (uint temp) \<and>
            sint (thermal_integral (zen_thermal_check_cpu prm stack temp zcpu)) =
              spec_thermal_integral (uint (zen_freq_soft_temp prm)) (uint (zen_freq_hard_temp prm))
                3 75 (thermal_state zcpu) (sint (thermal_integral zcpu)) (uint temp) \<and>
            - 1000 \<le> sint (thermal_integral (zen_thermal_check_cpu prm stack temp zcpu)) \<and>
            sint (thermal_integral (zen_thermal_check_cpu prm stack temp zcpu)) \<le> 1000 \<and>
            (spec_thermal_ceiling (uint (lowest_perf zcpu)) 255
               (uint (zen_freq_soft_temp prm)) (uint (zen_freq_hard_temp prm)) 3 75
               (thermal_state zcpu) (sint (thermal_integral zcpu))
               (uint (thermal_throttle_perf zcpu)) (uint temp) = None \<and>
             thermal_throttle_perf (zen_thermal_check_cpu prm stack temp zcpu) = stack \<or>
             spec_thermal_ceiling (uint (lowest_perf zcpu)) 255
               (uint (zen_freq_soft_temp prm)) (uint (zen_freq_hard_temp prm)) 3 75
               (thermal_state zcpu) (sint (thermal_integral zcpu))
               (uint (thermal_throttle_perf zcpu)) (uint temp) =
               Some (uint (thermal_throttle_perf (zen_thermal_check_cpu prm stack temp zcpu)))))"
proof -
  have soft': "ZEN_THERMAL_HYSTERESIS \<le> zen_freq_soft_temp prm"
    and hard': "ZEN_THERMAL_HYSTERESIS \<le> zen_freq_hard_temp prm"
    using soft hard by (simp_all add: zen_constants)
  have c1: "\<exists>zcpu. driver_data policy' = Some zcpu \<and> thermal_state zcpu = ZEN_THERMAL_NORMAL \<and>
            thermal_integral zcpu = 0 \<and> thermal_throttle_perf zcpu = 255"
    using init_cpu_state [OF init] init_cpu_integral [OF init] by auto
  have c2: "thermal_trace prm polls zcpu =
          spec_thermal_trace (uint (zen_freq_soft_temp prm)) (uint (zen_freq_hard_temp prm))
            3 75 (thermal_state zcpu) (map (\<lambda>p. uint (snd p)) polls)" for zcpu
  proof -
    have "\<forall>p \<in> set polls. snd p \<noteq> 0" using valid by auto
    from thermal_trace_spec [OF soft' hard' this, of zcpu]
    show ?thesis by (simp add: zen_constants)
  qed
  have c3: "thermal_trace prm [(s1, 70), (s2, 85), (s3, 95), (s4, 86), (s5, 76), (s6, 70)] zcpu =
          [ZEN_THERMAL_NORMAL, ZEN_THERMAL_SOFT_THROTTLE, ZEN_THERMAL_HARD_THROTTLE,
           ZEN_THERMAL_SOFT_THROTTLE, ZEN_THERMAL_RECOVERY, ZEN_THERMAL_NORMAL]"
    if a: "zen_freq_soft_temp prm = 80 \<and> zen_freq_hard_temp prm = 90 \<and>
           thermal_state zcpu = ZEN_THERMAL_NORMAL"
    for zcpu :: zen_freq_cpu and s1 s2 s3 s4 s5 s6 :: u8
  proof -
    have v: "\<forall>p \<in> set [(s1, 70), (s2, 85), (s3, 95), (s4, 86), (s5, 76), (s6, 70 :: u32)]. snd p \<noteq> 0"
      by simp
    show ?thesis
      using a by (subst thermal_trace_spec [OF soft' hard' v]) (simp add: zen_constants)
  qed
  have c4: "thermal_state (zen_thermal_check_cpu prm stack temp zcpu) =
              spec_thermal_next (uint (zen_freq_soft_temp prm)) (uint (zen_freq_hard_temp prm))
                3 75 (thermal_state zcpu) (uint temp) \<and>
            sint (thermal_integral (zen_thermal_check_cpu prm stack temp zcpu)) =
              spec_thermal_integral (uint (zen_freq_soft_temp prm)) (uint (zen_freq_hard_temp prm))
                3 75 (thermal_state zcpu) (sint (thermal_integral zcpu)) (uint temp) \<and>
            - 1000 \<le> sint (thermal_integral (zen_thermal_check_cpu prm stack temp zcpu)) \<and>
            sint (thermal_integral (zen_thermal_check_cpu prm stack temp zcpu)) \<le> 1000 \<and>
            (spec_thermal_ceiling (uint (lowest_perf zcpu)) 255
               (uint (zen_freq_soft_temp prm)) (uint (zen_freq_hard_temp prm)) 3 75
               (thermal_state zcpu) (sint (thermal_integral zcpu))
               (uint (thermal_throttle_perf zcpu)) (uint temp) = None \<and>
             thermal_throttle_perf (zen_thermal_check_cpu prm stack temp zcpu) = stack \<or>
             spec_thermal_ceiling (uint (lowest_perf zcpu)) 255
               (uint (zen_freq_soft_temp prm)) (uint (zen_freq_hard_temp prm)) 3 75
               (thermal_state zcpu) (sint (thermal_integral zcpu))
               (uint (thermal_throttle_perf zcpu)) (uint temp) =
               Some (uint (thermal_throttle_perf (zen_thermal_check_cpu prm stack temp zcpu))))"
    if a: "temp \<noteq> 0 \<and> temp \<le> 127 \<and>
            uint (zen_freq_soft_temp prm) * 50 < 2 ^ 31 \<and> zen_freq_max_perf prm = 255 \<and>
            - 1000 \<le> sint (thermal_integral zcpu) \<and> sint (thermal_integral zcpu) \<le> 1000"
    for zcpu stack temp
  proof -
    from a have v: "temp \<noteq> 0" and t: "temp \<le> 127"
      and s: "uint (zen_freq_soft_temp prm) * 50 < 2 ^ 31" and m: "zen_freq_max_perf prm = 255"
      and lo: "- 1000 \<le> sint (thermal_integral zcpu)" and hi: "sint (thermal_integral zcpu) \<le> 1000"
      by blast+
    note st1 = thermal_check_step(1) [OF soft hard v t s lo hi, of stack]
    note st2 = thermal_check_step(2) [OF soft hard v t s lo hi, of stack]
    note st3 = thermal_check_step(3) [OF soft hard v t s lo hi m]
    note rg = spec_thermal_integral_range [OF lo hi,
        of "uint (zen_freq_soft_temp prm)" "uint (zen_freq_hard_temp prm)" 3 75
           "thermal_state zcpu" "uint temp"]
    have ce: "spec_thermal_ceiling (uint (lowest_perf zcpu)) 255
               (uint (zen_freq_soft_temp prm)) (uint (zen_freq_hard_temp prm)) 3 75
               (thermal_state zcpu) (sint (thermal_integral zcpu))
               (uint (thermal_throttle_perf zcpu)) (uint temp) = None \<and>
             thermal_throttle_perf (zen_thermal_check_cpu prm stack temp zcpu) = stack \<or>
             spec_thermal_ceiling (uint (lowest_perf zcpu)) 255
               (uint (zen_freq_soft_temp prm)) (uint (zen_freq_hard_temp prm)) 3 75
               (thermal_state zcpu) (sint (thermal_integral zcpu))
               (uint (thermal_throttle_perf zcpu)) (uint temp) =
               Some (uint (thermal_throttle_perf (zen_thermal_check_cpu prm stack temp zcpu)))"
      unfolding st3 [symmetric] thermal_check_ceiling [OF v]
      by (cases "fst (snd (thermal_switch prm (zcpu\<lparr>last_temp := temp\<rparr>) temp))") simp_all
    show ?thesis using st1 st2 rg ce by simp
  qed
  from c1 c2 c3 c4 show ?thesis by blast
qed

theorem thermal_state_machine_follows_table_witness:
  "zen_freq_init_cpu default_params example_rdmsr False True True True example_policy0 =
     Inr example_policy \<and>
   3 \<le> zen_freq_soft_temp default_params \<and>
   3 \<le> zen_freq_hard_temp default_params \<and>
   0 \<notin> set (map snd [(0 :: u8, 70 :: u32), (0, 85), (0, 95), (0, 86), (0, 76), (0, 70)]) \<and>
   zen_freq_soft_temp default_params = 80 \<and> zen_freq_hard_temp default_params = 90 \<and>
   driver_data example_policy = Some example_core \<and>
   thermal_state example_core = ZEN_THERMAL_NORMAL \<and>
   thermal_integral example_core = 0 \<and> thermal_throttle_perf example_core = 255 \<and>
   thermal_trace default_params [(0, 70), (0, 85), (0, 95), (0, 86), (0, 76), (0, 70)] example_core =
     spec_thermal_trace 80 90 3 75 ZEN_THERMAL_NORMAL [70, 85, 95, 86, 76, 70] \<and>
   thermal_trace default_params [(0, 70), (0, 85), (0, 95), (0, 86), (0, 76), (0, 70)] example_core =
     [ZEN_THERMAL_NORMAL, ZEN_THERMAL_SOFT_THROTTLE, ZEN_THERMAL_HARD_THROTTLE,
      ZEN_THERMAL_SOFT_THROTTLE, ZEN_THERMAL_RECOVERY, ZEN_THERMAL_NORMAL] \<and>
   (85 :: u32) \<noteq> 0 \<and> (85 :: u32) \<le> 127 \<and>
   uint (zen_freq_soft_temp default_params) * 50 < 2 ^ 31 \<and>
   zen_freq_max_perf default_params = 255 \<and>
   - 1000 \<le> sint (thermal_integral (example_soft_core\<lparr>thermal_integral := 500\<rparr>)) \<and>
   sint (thermal_integral (example_soft_core\<lparr>thermal_integral := 500\<rparr>)) \<le> 1000 \<and>
   thermal_state (example_soft_core\<lparr>thermal_integral := 500\<rparr>) = ZEN_THERMAL_SOFT_THROTTLE \<and>
   thermal_throttle_perf (example_soft_core\<lparr>thermal_integral := 500\<rparr>) = 255 \<and>
   spec_thermal_next 80 90 3 75 ZEN_THERMAL_SOFT_THROTTLE 85 = ZEN_THERMAL_SOFT_THROTTLE \<and>
   spec_thermal_integral 80 90 3 75 ZEN_THERMAL_SOFT_THROTTLE 500 85 = 505 \<and>
   spec_thermal_ceiling 0 255 80 90 3 75 ZEN_THERMAL_SOFT_THROTTLE 500 255 85 = Some 250 \<and>
   thermal_state (zen_thermal_check_cpu default_params 0 85
      (example_soft_core\<lparr>thermal_integral := 500\<rparr>)) = ZEN_THERMAL_SOFT_THROTTLE \<and>
   sint (thermal_integral (zen_thermal_check_cpu default_params 0 85
      (example_soft_core\<lparr>thermal_integral := 500\<rparr>))) = 505 \<and>
   uint (thermal_throttle_perf (zen_thermal_check_cpu default_params 0 85
      (example_soft_core\<lparr>thermal_integral := 500\<rparr>))) = 250"
proof -
  let ?w = "example_soft_core\<lparr>thermal_integral := 500\<rparr>"
  have s: "3 \<le> zen_freq_soft_temp default_params"
    by (simp add: default_params_def zen_constants)
  have h: "3 \<le> zen_freq_hard_temp default_params"
    by (simp add: default_params_def zen_constants)
  have v: "0 \<notin> set (map snd [(0 :: u8, 70 :: u32), (0, 85), (0, 95), (0, 86), (0, 76), (0, 70)])"
    by simp
  have c: "zen_freq_soft_temp default_params = 80 \<and> zen_freq_hard_temp default_params = 90"
    by (simp add: default_params_def zen_constants)
  have e: "thermal_state example_core = ZEN_THERMAL_NORMAL"
    and e': "thermal_integral example_core = 0 \<and> thermal_throttle_perf example_core = 255"
    by (simp_all add: example_core_def)
  have d: "driver_data example_policy = Some example_core"
    by (simp add: example_policy_def)
  have a: "(85 :: u32) \<noteq> 0 \<and> (85 :: u32) \<le> 127 \<and>
           uint (zen_freq_soft_temp default_params) * 50 < 2 ^ 31 \<and>
           zen_freq_max_perf default_params = 255 \<and>
           - 1000 \<le> sint (thermal_integral ?w) \<and> sint (thermal_integral ?w) \<le> 1000"
    by (simp add: default_params_def zen_constants)
  have w: "thermal_state ?w = ZEN_THERMAL_SOFT_THROTTLE \<and> thermal_throttle_perf ?w = 255 \<and>
           lowest_perf ?w = 0 \<and> thermal_integral ?w = 500"
    by (simp add: example_soft_core_eq example_core_def)
  have sp: "spec_thermal_next 80 90 3 75 ZEN_THERMAL_SOFT_THROTTLE 85 = ZEN_THERMAL_SOFT_THROTTLE \<and>
            spec_thermal_integral 80 90 3 75 ZEN_THERMAL_SOFT_THROTTLE 500 85 = 505 \<and>
            spec_thermal_ceiling 0 255 80 90 3 75 ZEN_THERMAL_SOFT_THROTTLE 500 255 85 = Some 250"
    by (simp add: spec_pi_integral_def spec_pi_ceiling_def spec_clamp_def spec_sdiv_numeral)
  note t = thermal_state_machine_follows_table [OF example_init s h v]
  from t have t2: "thermal_trace default_params [(0, 70), (0, 85), (0, 95), (0, 86), (0, 76), (0, 70)] example_core =
     spec_thermal_trace (uint (zen_freq_soft_temp default_params)) (uint (zen_freq_hard_temp default_params))
              3 75 (thermal_state example_core)
              (map (\<lambda>p. uint (snd p)) [(0 :: u8, 70), (0, 85), (0, 95), (0, 86), (0, 76), (0, 70 :: u32)])"
    by blast
  from t c e have t3: "thermal_trace default_params [(0, 70), (0, 85), (0, 95), (0, 86), (0, 76), (0, 70)] example_core =
     [ZEN_THERMAL_NORMAL, ZEN_THERMAL_SOFT_THROTTLE, ZEN_THERMAL_HARD_THROTTLE,
      ZEN_THERMAL_SOFT_THROTTLE, ZEN_THERMAL_RECOVERY, ZEN_THERMAL_NORMAL]"
    by blast
  from t2 have t2': "thermal_trace default_params [(0, 70), (0, 85), (0, 95), (0, 86), (0, 76), (0, 70)] example_core =
     spec_thermal_trace 80 90 3 75 ZEN_THERMAL_NORMAL [70, 85, 95, 86, 76, 70]"
    by (simp add: c e)
  from t a have t4:
    "thermal_state (zen_thermal_check_cpu default_params 0 85 ?w) =
       spec_thermal_next (uint (zen_freq_soft_temp default_params))
         (uint (zen_freq_hard_temp default_params)) 3 75 (thermal_state ?w) (uint (85 :: u32)) \<and>
     sint (thermal_integral (zen_thermal_check_cpu default_params 0 85 ?w)) =
       spec_thermal_integral (uint (zen_freq_soft_temp default_params))
         (uint (zen_freq_hard_temp default_params)) 3 75 (thermal_state ?w)
         (sint (thermal_integral ?w)) (uint (85 :: u32)) \<and>
     (spec_thermal_ceiling (uint (lowest_perf ?w)) 255
        (uint (zen_freq_soft_temp default_params)) (uint (zen_freq_hard_temp default_params)) 3 75
        (thermal_state ?w) (sint (thermal_integral ?w))
        (uint (thermal_throttle_perf ?w)) (uint (85 :: u32)) = None \<and>
      thermal_throttle_perf (zen_thermal_check_cpu default_params 0 85 ?w) = 0 \<or>
      spec_thermal_ceiling (uint (lowest_perf ?w)) 255
        (uint (zen_freq_soft_temp default_params)) (uint (zen_freq_hard_temp default_params)) 3 75
        (thermal_state ?w) (sint (thermal_integral ?w))
        (uint (thermal_throttle_perf ?w)) (uint (85 :: u32)) =
        Some (uint (thermal_throttle_perf (zen_thermal_check_cpu default_params 0 85 ?w))))"
    by blast
  have t4': "thermal_state (zen_thermal_check_cpu default_params 0 85 ?w) = ZEN_THERMAL_SOFT_THROTTLE \<and>
     sint (thermal_integral (zen_thermal_check_cpu default_params 0 85 ?w)) = 505 \<and>
     uint (thermal_throttle_perf (zen_thermal_check_cpu default_params 0 85 ?w)) = 250"
    using t4 sp
    by (simp add: example_soft_core_eq example_core_def default_params_def zen_constants)
  show ?thesis
    using example_init s h v c e e' d t2' t3 a w sp t4' by simp
qed

text \<open>
  C2, the claim as stated fails. With the soft limit at 2 degrees the unsigned
  \<open>zen_freq_soft_temp - ZEN_THERMAL_HYSTERESIS\<close> wraps, and a core in SoftThrottle goes to
  Recovery at 50 degrees, where the table keeps it in SoftThrottle (50 is not below -1). A
  register value with the valid bit set and the temperature 0 is taken for "no sample" and
  leaves a core in SoftThrottle, where the table moves it to Recovery. With \<open>max_perf\<close> at
  200 the controller answers 255 where the table has the full ceiling 200, and the
  Recovery ramp takes the ceiling from 195 (the stack byte stored on entering Recovery) to
  205 where the table caps it at 200.
\<close>

theorem thermal_state_machine_departs_from_table:
  "thermal_state example_core = ZEN_THERMAL_NORMAL \<and>
   zen_freq_soft_temp example_low_soft_params = 2 \<and>
   zen_freq_hard_temp example_low_soft_params = 90 \<and>
   thermal_trace example_low_soft_params [(0, 50), (0, 50)] example_core =
     [ZEN_THERMAL_SOFT_THROTTLE, ZEN_THERMAL_RECOVERY] \<and>
   spec_thermal_trace 2 90 3 75 ZEN_THERMAL_NORMAL [50, 50] =
     [ZEN_THERMAL_SOFT_THROTTLE, ZEN_THERMAL_SOFT_THROTTLE] \<and>
   zen_read_temperature (Some 0x80000000) = 0 \<and>
   thermal_state example_soft_core = ZEN_THERMAL_SOFT_THROTTLE \<and>
   thermal_state (zen_thermal_check_cpu default_params 0
      (zen_read_temperature (Some 0x80000000)) example_soft_core) = ZEN_THERMAL_SOFT_THROTTLE \<and>
   spec_thermal_next 80 90 3 75 ZEN_THERMAL_SOFT_THROTTLE 0 = ZEN_THERMAL_RECOVERY \<and>
   zen_freq_max_perf example_capped_params = 200 \<and>
   thermal_state example_capped_core = ZEN_THERMAL_NORMAL \<and>
   thermal_integral example_capped_core = 0 \<and>
   thermal_throttle_perf example_capped_core = 200 \<and>
   thermal_throttle_perf (zen_thermal_check_cpu example_capped_params 0 85 example_capped_core) = 255 \<and>
   spec_thermal_ceiling 0 200 80 90 3 75 ZEN_THERMAL_NORMAL 0 200 85 = Some 200 \<and>
   thermal_state (thermal_polls example_capped_params [(0, 85), (195, 76)] example_capped_core) =
     ZEN_THERMAL_RECOVERY \<and>
   thermal_integral (thermal_polls example_capped_params [(0, 85), (195, 76)] example_capped_core) = 0 \<and>
   thermal_throttle_perf (thermal_polls example_capped_params [(0, 85), (195, 76)] example_capped_core) = 195 \<and>
   thermal_throttle_perf
     (thermal_polls example_capped_params [(0, 85), (195, 76), (0, 78)] example_capped_core) = 205 \<and>
   spec_thermal_ceiling 0 200 80 90 3 75 ZEN_THERMAL_RECOVERY 0 195 78 = Some 200"
  by (simp add: example_soft_core_eq example_capped_core_eq)
     (simp add: zen_thermal_check_cpu_def thermal_switch_def zen_thermal_pi_controller_def
       zen_read_temperature_def s32_div_def ZEN_CLAMP_def signed_divide_int_def
       example_capped_params_def example_low_soft_params_def example_core_def default_params_def
       zen_constants
       spec_pi_ceiling_def spec_pi_integral_def spec_clamp_def Let_def)

text \<open>
  C10. In the branch from SoftThrottle to Recovery the local \<open>new_max_perf\<close> receives no
  value, so the ceiling compared and stored at line 346 is the byte the stack happened to
  hold: on the same core, state and temperature (SoftThrottle, 76 degrees) the stored
  ceiling is 7 with one stack content and 200 with another.
\<close>

theorem thermal_recovery_ceiling_unassigned:
  "thermal_state example_soft_core = ZEN_THERMAL_SOFT_THROTTLE \<and>
   fst (snd (thermal_switch default_params (example_soft_core\<lparr>last_temp := 76\<rparr>) 76)) = None \<and>
   thermal_throttle_perf (zen_thermal_check_cpu default_params 7 76 example_soft_core) = 7 \<and>
   thermal_throttle_perf (zen_thermal_check_cpu default_params 200 76 example_soft_core) = 200"
  by (simp add: example_soft_core_eq zen_thermal_check_cpu_def thermal_switch_def
      example_core_def default_params_def zen_constants Let_def)

subsection \<open>Hot path\<close>

lemma ucast_u8_u32_eq: "((ucast (a :: u8) :: u32) = ucast (b :: u8)) = (a = b)"
proof
  assume "(ucast a :: u32) = ucast b"
  then have "uint (ucast a :: u32) = uint (ucast b :: u32)" by simp
  then have "uint a = uint b" by (simp add: uint_up_ucast is_up)
  then show "a = b" by (simp add: word_uint_eq_iff)
qed simp

lemma perf_to_freq_defined:
  "hi \<noteq> lo \<Longrightarrow> \<exists>f. ZEN_PERF_TO_FREQ p lo hi mn mx = Inr f"
  by (simp add: ZEN_PERF_TO_FREQ_def ucast_u8_u32_eq)

lemma apply_target_limits_defined:
  "highest_perf zcpu \<noteq> lowest_perf zcpu \<Longrightarrow> \<exists>f. apply_target_limits zcpu best = Inr f"
  using perf_to_freq_defined [of "highest_perf zcpu" "lowest_perf zcpu"
      "thermal_throttle_perf zcpu" "min_freq zcpu" "max_freq zcpu"]
  by (auto simp add: apply_target_limits_def split: option.splits)

text \<open>
  C9. When \<open>smp_call_function_single\<close> does not return 0, the fast switch returns
  \<open>policy->cur\<close>, the frequency in force before the call, whatever frequency it had
  computed, and \<open>cur_freq\<close>, the record of the last applied frequency, is untouched. The
  call does return: the per-CPU data and the table are there, and the performance range is
  not empty (discovery sets it to 0 and 255).
\<close>

theorem fast_switch_reports_previous_on_failure:
  assumes drv: "driver_data policy = Some zcpu"
    and tab: "freq_table_rcu zcpu = Some table"
    and perf: "highest_perf zcpu \<noteq> lowest_perf zcpu"
    and fail: "smp_ret \<noteq> 0"
  shows "\<exists>f policy' zcpu'.
           zen_freq_fast_switch_lockless smp_ret policy target_freq = Inr (f, policy') \<and>
           f = cur policy \<and> (cur policy \<noteq> target_freq \<longrightarrow> f \<noteq> target_freq) \<and>
           driver_data policy' = Some zcpu' \<and> cur_freq zcpu' = cur_freq zcpu"
proof -
  obtain f where f: "apply_target_limits zcpu (freq_scan table target_freq (cur policy)) = Inr f"
    using apply_target_limits_defined [OF perf] by blast
  show ?thesis
    using drv tab fail f
    by (simp add: zen_freq_fast_switch_lockless_def Let_def split: option.splits)
qed

theorem fast_switch_reports_previous_on_failure_witness:
  "driver_data example_policy = Some example_core \<and>
   freq_table_rcu example_core = Some [200000, 300000] \<and>
   highest_perf example_core \<noteq> lowest_perf example_core \<and>
   (- 6 :: int) \<noteq> 0 \<and>
   cur example_policy = 300000 \<and>
   cur example_policy \<noteq> 200000 \<and>
   (\<exists>policy' zcpu'.
      zen_freq_fast_switch_lockless (- 6) example_policy 200000 = Inr (300000, policy') \<and>
      driver_data policy' = Some zcpu' \<and> cur_freq zcpu' = cur_freq example_core)"
proof -
  have d: "driver_data example_policy = Some example_core"
    by (simp add: example_policy_def)
  have t: "freq_table_rcu example_core = Some [200000, 300000]"
    by (simp add: example_core_def)
  have p: "highest_perf example_core \<noteq> lowest_perf example_core"
    by (simp add: example_core_def)
  have n: "(- 6 :: int) \<noteq> 0" by simp
  have c: "cur example_policy = 300000"
    by (simp add: example_policy_def)
  show ?thesis
    using fast_switch_reports_previous_on_failure [OF d t p n, of 200000] d t p c by simp
qed

lemma find_pstate_mark:
  "find_pstate (map (\<lambda>ps. ps\<lparr>safe := g ps\<rparr>) pss) f i = find_pstate pss f i"
  by (induction pss arbitrary: i) simp_all

lemma mark_safe_fields:
  "perf_target (mark_safe g zcpu) = perf_target zcpu"
  "thermal_state (mark_safe g zcpu) = thermal_state zcpu"
  "thermal_throttle_perf (mark_safe g zcpu) = thermal_throttle_perf zcpu"
  "lowest_perf (mark_safe g zcpu) = lowest_perf zcpu"
  "highest_perf (mark_safe g zcpu) = highest_perf zcpu"
  "min_freq (mark_safe g zcpu) = min_freq zcpu"
  "max_freq (mark_safe g zcpu) = max_freq zcpu"
  "nominal_freq (mark_safe g zcpu) = nominal_freq zcpu"
  "io_boost_active (mark_safe g zcpu) = io_boost_active zcpu"
  by (simp_all add: mark_safe_def)

lemma apply_target_limits_mark:
  "apply_target_limits (mark_safe g zcpu) best = apply_target_limits zcpu best"
  unfolding apply_target_limits_def mark_safe_fields by (rule refl)

lemma write_pstate_local_mark:
  "zen_write_pstate_local (mark_safe g zcpu) = mark_safe g (zen_write_pstate_local zcpu)"
  by (simp add: zen_write_pstate_local_def mark_safe_def)

text \<open>
  C7, as amended. The fast switch never reads the \<open>safe\<close> mark: run on a core whose
  marks were rewritten in any way, it returns the same frequency and leaves the same
  per-CPU data, up to the rewritten marks. Its choice depends on frequencies only.
\<close>

theorem fast_switch_ignores_safe_marks:
  "zen_freq_fast_switch_lockless smp_ret
     (policy\<lparr>driver_data := map_option (mark_safe g) (driver_data policy)\<rparr>) target_freq =
   map_sum id (\<lambda>(f, p). (f, p\<lparr>driver_data := map_option (mark_safe g) (driver_data p)\<rparr>))
     (zen_freq_fast_switch_lockless smp_ret policy target_freq)"
proof (cases "driver_data policy")
  case None
  then show ?thesis by (simp add: zen_freq_fast_switch_lockless_def)
next
  case (Some zcpu)
  show ?thesis
  proof (cases "freq_table_rcu zcpu")
    case None
    with Some show ?thesis
      by (simp add: zen_freq_fast_switch_lockless_def mark_safe_def)
  next
    case (Some table)
    have t: "freq_table_rcu (mark_safe g zcpu) = Some table"
      using Some by (simp add: mark_safe_def)
    have p: "pstates (mark_safe g zcpu) = map (\<lambda>ps. ps\<lparr>safe := g ps\<rparr>) (pstates zcpu)"
      by (simp add: mark_safe_def)
    have c: "\<And>i. (mark_safe g zcpu)\<lparr>cur_pstate := i\<rparr> = mark_safe g (zcpu\<lparr>cur_pstate := i\<rparr>)"
      by (simp add: mark_safe_def)
    from \<open>driver_data policy = Some zcpu\<close> Some t show ?thesis
      by (simp add: zen_freq_fast_switch_lockless_def apply_target_limits_mark p
          find_pstate_mark c write_pstate_local_mark Let_def
          split: sum.splits option.splits)
  qed
qed

lemma example_unsafe_init:
  "zen_freq_init_cpu default_params example_unsafe_rdmsr False True True True example_policy0 =
   Inr example_unsafe_policy"
  by (simp add: zen_freq_init_cpu_def zen_freq_get_pstate_info_def pstate_info_round_def
      example_unsafe_rdmsr_def example_policy0_def example_policy_def example_core_def
      example_unsafe_policy_def example_unsafe_core_def
      zeroed_cpu_def zeroed_stats_def default_params_def zen_constants Let_def
      zen_freq_calc_freq_from_pstate_def pstate_fields zen_voltage_check_all_pstates_def
      zen_voltage_verify_pstate_def ZEN_VID_TO_MV_def zen_freq_build_freq_table_def)

lemma example_all_unsafe_init:
  "zen_freq_init_cpu default_params example_all_unsafe_rdmsr False True True True example_policy0 =
   Inr example_all_unsafe_policy"
  by (simp add: zen_freq_init_cpu_def zen_freq_get_pstate_info_def pstate_info_round_def
      example_all_unsafe_rdmsr_def example_policy0_def example_policy_def example_core_def
      example_all_unsafe_policy_def example_all_unsafe_core_def
      zeroed_cpu_def zeroed_stats_def default_params_def zen_constants Let_def
      zen_freq_calc_freq_from_pstate_def pstate_fields zen_voltage_check_all_pstates_def
      zen_voltage_verify_pstate_def ZEN_VID_TO_MV_def zen_freq_build_freq_table_def)

text \<open>
  C7, the claim as stated fails: on the second example core P-state 1 is marked safe and
  P-state 0 is not, and a request for 300 MHz selects P-state 0. On the third, where no
  P-state is marked safe, the same request selects P-state 0 as well, the highest point and
  not the lowest.
\<close>

theorem fast_switch_selects_unsafe_pstate:
  "zen_freq_init_cpu default_params example_unsafe_rdmsr False True True True example_policy0 =
     Inr example_unsafe_policy \<and>
   driver_data example_unsafe_policy = Some example_unsafe_core \<and>
   map safe (pstates example_unsafe_core) = [False, True] \<and>
   zen_freq_fast_switch_lockless 0 example_unsafe_policy 300000 =
     Inr (300000,
          example_unsafe_policy\<lparr>driver_data := Some (example_unsafe_core\<lparr>cur_freq := 300000\<rparr>)\<rparr>) \<and>
   cur_pstate (example_unsafe_core\<lparr>cur_freq := 300000\<rparr>) = 0 \<and>
   zen_freq_init_cpu default_params example_all_unsafe_rdmsr False True True True example_policy0 =
     Inr example_all_unsafe_policy \<and>
   driver_data example_all_unsafe_policy = Some example_all_unsafe_core \<and>
   map safe (pstates example_all_unsafe_core) = [False, False] \<and>
   map freq (pstates example_all_unsafe_core) = [300000, 200000] \<and>
   zen_freq_fast_switch_lockless 0 example_all_unsafe_policy 300000 =
     Inr (300000,
          example_all_unsafe_policy\<lparr>driver_data :=
            Some (example_all_unsafe_core\<lparr>cur_freq := 300000\<rparr>)\<rparr>) \<and>
   cur_pstate (example_all_unsafe_core\<lparr>cur_freq := 300000\<rparr>) = 0"
  by (simp add: example_unsafe_init example_all_unsafe_init)
     (simp add: zen_freq_fast_switch_lockless_def apply_target_limits_def
      zen_write_pstate_local_def example_unsafe_policy_def example_unsafe_core_def
      example_all_unsafe_policy_def example_all_unsafe_core_def
      example_policy_def example_core_def CPUFREQ_TABLE_END_def zeroed_target_def)

text \<open>
  What the scan of the table does achieve. A request that is in the table is returned as
  it is. When the current frequency is not above the request, the result is not above the
  request either and no entry at or below the request is above the result. The table holds
  real frequencies, none of them \<open>CPUFREQ_TABLE_END\<close>.
\<close>

lemma freq_scan_exact:
  "target_freq \<in> set table \<Longrightarrow> CPUFREQ_TABLE_END \<notin> set table \<Longrightarrow>
   freq_scan table target_freq best_freq = target_freq"
  by (induction table arbitrary: best_freq) auto

lemma freq_scan_bounds:
  "CPUFREQ_TABLE_END \<notin> set table \<Longrightarrow> best_freq \<le> target_freq \<Longrightarrow>
   freq_scan table target_freq best_freq \<le> target_freq \<and>
   best_freq \<le> freq_scan table target_freq best_freq \<and>
   (\<forall>f \<in> set table. f \<le> target_freq \<longrightarrow> f \<le> freq_scan table target_freq best_freq)"
proof (induction table arbitrary: best_freq)
  case Nil
  then show ?case by simp
next
  case (Cons f table)
  show ?case
  proof (cases "f = target_freq")
    case True
    then show ?thesis using Cons.prems by auto
  next
    case False
    let ?b = "if f \<le> target_freq \<and> best_freq < f then f else best_freq"
    have b: "?b \<le> target_freq" using Cons.prems by simp
    have e: "CPUFREQ_TABLE_END \<notin> set table" using Cons.prems by simp
    note ih = Cons.IH [OF e b]
    have ne: "f \<noteq> CPUFREQ_TABLE_END" using Cons.prems by auto
    have s: "freq_scan (f # table) target_freq best_freq = freq_scan table target_freq ?b"
      using False ne by simp
    have b1: "best_freq \<le> ?b" by (auto intro: less_imp_le)
    have b2: "f \<le> target_freq \<longrightarrow> f \<le> ?b" by (auto simp add: not_less)
    show ?thesis
      unfolding s using ih b1 b2 by (auto intro: order_trans)
  qed
qed

text \<open>
  C3. The scan starts from \<open>policy->cur\<close> and only moves to entries above the running
  value, so a request below the current frequency that matches no entry leaves the current
  frequency standing: with the table 200 MHz, 300 MHz and 300 MHz in force, a request for
  250 MHz yields 300 MHz, above the request, although 200 MHz is in the table.
\<close>

theorem fast_switch_scan_exceeds_request:
  "freq_table_rcu example_core = Some [200000, 300000] \<and>
   cur example_policy = 300000 \<and>
   freq_scan [200000, 300000] 250000 300000 = 300000 \<and>
   zen_freq_fast_switch_lockless 0 example_policy 250000 =
     Inr (300000, example_policy\<lparr>driver_data := Some (example_core\<lparr>cur_freq := 300000\<rparr>)\<rparr>) \<and>
   (200000 :: u32) \<le> 250000 \<and> \<not> (300000 :: u32) \<le> 250000"
  by (simp add: zen_freq_fast_switch_lockless_def apply_target_limits_def
      zen_write_pstate_local_def example_policy_def example_core_def CPUFREQ_TABLE_END_def
      zeroed_target_def)

subsection \<open>Discovery\<close>

lemma unat_ucast_u64_le: "unat (ucast (w :: u64) :: u32) \<le> unat w"
  by (simp add: unsigned_ucast_eq take_bit_nat_def)

lemma fid_bound: "unat (PSTATE_DEF_FID v) \<le> 63"
proof -
  have "unat (v AND 0x3F) \<le> unat (0x3F :: u64)"
    by (rule word_and_le1 [THEN word_le_nat_alt [THEN iffD1]])
  then have "unat (v AND 0x3F) \<le> 63" by simp
  then show ?thesis
    unfolding PSTATE_DEF_FID_def using unat_ucast_u64_le [of "v AND 0x3F"] by linarith
qed

lemma did_bound: "unat (PSTATE_DEF_DID v) \<le> 31"
proof -
  have "unat (drop_bit 6 v AND 0x1F) \<le> unat (0x1F :: u64)"
    by (rule word_and_le1 [THEN word_le_nat_alt [THEN iffD1]])
  then have "unat (drop_bit 6 v AND 0x1F) \<le> 31" by simp
  then show ?thesis
    unfolding PSTATE_DEF_DID_def using unat_ucast_u64_le [of "drop_bit 6 v AND 0x1F"] by linarith
qed

lemma unat_mult_small:
  "unat (a :: u32) * unat (b :: u32) < 2 ^ 32 \<Longrightarrow> unat (a * b) = unat a * unat b"
  using unat_mult_lem [of a b] by simp

lemma freq_mhz_bound:
  "unat (if PSTATE_DEF_DID v = 0 then PSTATE_DEF_FID v * ZEN_FREQ_BASE
         else (PSTATE_DEF_FID v * ZEN_FREQ_BASE * 4) div (PSTATE_DEF_DID v + 4)) \<le> 1575"
proof -
  define fd where "fd = PSTATE_DEF_FID v"
  define x25 where "x25 = fd * ZEN_FREQ_BASE"
  define x100 where "x100 = x25 * 4"
  have f: "unat fd \<le> 63" unfolding fd_def by (rule fid_bound)
  have "unat fd * unat ZEN_FREQ_BASE < 2 ^ 32"
    using f by (simp add: ZEN_FREQ_BASE_def)
  then have "unat x25 = unat fd * unat ZEN_FREQ_BASE"
    unfolding x25_def by (rule unat_mult_small)
  then have m25: "unat x25 = unat fd * 25" by (simp add: ZEN_FREQ_BASE_def)
  have "unat x25 * unat (4 :: u32) < 2 ^ 32"
    using f by (simp add: m25)
  then have "unat x100 = unat x25 * unat (4 :: u32)"
    unfolding x100_def by (rule unat_mult_small)
  then have m100: "unat x100 \<le> 6300" using f by (simp add: m25)
  show ?thesis
  proof (cases "PSTATE_DEF_DID v = 0")
    case True
    then show ?thesis using f m25 by (simp add: x25_def [symmetric] fd_def [symmetric])
  next
    case False
    then have "unat (PSTATE_DEF_DID v) \<noteq> 0" by (simp add: unat_eq_zero)
    moreover have "unat (PSTATE_DEF_DID v) + unat (4 :: u32) < 2 ^ LENGTH(32)"
      using did_bound [of v] by simp
    then have "unat (PSTATE_DEF_DID v + 4) = unat (PSTATE_DEF_DID v) + unat (4 :: u32)"
      by (simp only: unat_add_lem)
    ultimately have five: "5 \<le> unat (PSTATE_DEF_DID v + 4)" by simp
    have "unat (x100 div (PSTATE_DEF_DID v + 4)) = unat x100 div unat (PSTATE_DEF_DID v + 4)"
      by (rule unat_div)
    also have "\<dots> \<le> unat x100 div 5"
      by (rule div_le_mono2 [OF _ five]) simp
    also have "\<dots> \<le> 6300 div 5"
      by (rule div_le_mono [OF m100])
    finally have "unat (x100 div (PSTATE_DEF_DID v + 4)) \<le> 1575" by simp
    with False show ?thesis
      by (simp only: if_False x100_def x25_def fd_def)
  qed
qed

lemma calc_freq_bound: "zen_freq_calc_freq_from_pstate v \<le> 1575000"
proof -
  define base where "base = (if PSTATE_DEF_DID v = 0 then PSTATE_DEF_FID v * ZEN_FREQ_BASE
         else (PSTATE_DEF_FID v * ZEN_FREQ_BASE * 4) div (PSTATE_DEF_DID v + 4))"
  define scaled where "scaled = (if 0 < PSTATE_DEF_CUR_DIV v
         then base div push_bit (unat (PSTATE_DEF_CUR_DIV v - 1)) 1 else base)"
  have b: "unat base \<le> 1575" unfolding base_def by (rule freq_mhz_bound)
  have "unat scaled \<le> unat base"
    by (simp add: scaled_def unat_div)
  with b have s: "unat scaled \<le> 1575" by simp
  have "unat (scaled * 1000) = unat scaled * 1000"
    using s by (intro unat_mult_small [of _ 1000, simplified]) simp
  with s have "unat (scaled * 1000) \<le> 1575000" by simp
  then have "scaled * 1000 \<le> 1575000" by (simp add: word_le_nat_alt)
  moreover have "zen_freq_calc_freq_from_pstate v = scaled * 1000"
    by (simp add: zen_freq_calc_freq_from_pstate_def Let_def scaled_def base_def
        ZEN_FREQ_MULTIPLIER_def)
  ultimately show ?thesis by simp
qed

lemma pstate_info_round_freqs:
  assumes "max_freq zcpu \<le> 1575000"
    and "pstates zcpu \<noteq> [] \<longrightarrow> min_freq zcpu \<le> max_freq zcpu"
  shows "max_freq (pstate_info_round rdmsr i zcpu) \<le> 1575000 \<and>
         (pstates (pstate_info_round rdmsr i zcpu) \<noteq> [] \<longrightarrow>
          min_freq (pstate_info_round rdmsr i zcpu) \<le> max_freq (pstate_info_round rdmsr i zcpu))"
  using assms calc_freq_bound
  by (auto simp add: pstate_info_round_def Let_def split: option.splits)

lemma pstate_info_fold_freqs:
  "max_freq zcpu \<le> 1575000 \<Longrightarrow>
   pstates zcpu \<noteq> [] \<longrightarrow> min_freq zcpu \<le> max_freq zcpu \<Longrightarrow>
   max_freq (fold (pstate_info_round rdmsr) idx zcpu) \<le> 1575000 \<and>
   (pstates (fold (pstate_info_round rdmsr) idx zcpu) \<noteq> [] \<longrightarrow>
    min_freq (fold (pstate_info_round rdmsr) idx zcpu)
      \<le> max_freq (fold (pstate_info_round rdmsr) idx zcpu))"
proof (induction idx arbitrary: zcpu)
  case Nil
  then show ?case by simp
next
  case (Cons i idx)
  from pstate_info_round_freqs [OF Cons.prems, of rdmsr i]
  show ?case by (simp add: Cons.IH)
qed

lemma get_pstate_info_discovered:
  assumes "zen_freq_get_pstate_info rdmsr cpb z0 = Inr zcpu"
  shows "discovered zcpu"
proof -
  let ?s = "z0\<lparr> pstates := [], boost_states := [], max_freq := 0,
                 min_freq := - 1, nominal_freq := 0 \<rparr>"
  let ?z1 = "fold (pstate_info_round rdmsr) [0, 1, 2, 3, 4, 5, 6, 7] ?s"
  have "max_freq ?s \<le> 1575000" and "pstates ?s \<noteq> [] \<longrightarrow> min_freq ?s \<le> max_freq ?s"
    by simp_all
  from pstate_info_fold_freqs [OF this]
  have f: "max_freq ?z1 \<le> 1575000 \<and> (pstates ?z1 \<noteq> [] \<longrightarrow> min_freq ?z1 \<le> max_freq ?z1)" .
  from assms have ne: "pstates ?z1 \<noteq> []"
    by (auto simp add: zen_freq_get_pstate_info_def Let_def split: if_splits)
  from assms have fields: "lowest_perf zcpu = 0" "highest_perf zcpu = 255"
    "min_freq zcpu = min_freq ?z1" "max_freq zcpu = max_freq ?z1"
    by (auto simp add: zen_freq_get_pstate_info_def Let_def split: if_splits)
  show ?thesis
    using f ne by (simp add: discovered_def fields)
qed

lemma check_all_discovered:
  "discovered (zen_voltage_check_all_pstates prm zcpu) = discovered zcpu"
  by (simp add: zen_voltage_check_all_pstates_def discovered_def Let_def split: prod.splits)

lemma init_cpu_discovered:
  assumes "zen_freq_init_cpu prm rdmsr cpb a1 a2 a3 policy = Inr policy'"
  shows "\<exists>zcpu. driver_data policy' = Some zcpu \<and> discovered zcpu"
proof -
  let ?z0 = "zeroed_cpu\<lparr> cpu := policy_cpu policy,
                  boost_enabled := zen_freq_boost_enabled prm, cur_freq := 0 \<rparr>"
  from assms obtain z1 where z1: "zen_freq_get_pstate_info rdmsr cpb ?z0 = Inr z1"
    by (auto simp add: zen_freq_init_cpu_def Let_def split: if_splits sum.splits)
  from assms z1 have p: "policy' = policy\<lparr> driver_data :=
        Some ((zen_voltage_check_all_pstates prm z1)
               \<lparr>freq_table_rcu := Some (map freq (rev (pstates (zen_voltage_check_all_pstates prm z1)))),
                perf_target := Some zeroed_target\<rparr>),
        policy_min := min_freq (zen_voltage_check_all_pstates prm z1),
        policy_max := max_freq (zen_voltage_check_all_pstates prm z1) \<rparr>"
    by (auto simp add: zen_freq_init_cpu_def zen_freq_build_freq_table_def Let_def
        split: if_splits sum.splits)
  have "discovered (zen_voltage_check_all_pstates prm z1)"
    using get_pstate_info_discovered [OF z1] by (simp add: check_all_discovered)
  then show ?thesis
    by (simp add: p discovered_def)
qed

lemma pi_controller_frame:
  "snd (zen_thermal_pi_controller prm zcpu temp) =
   zcpu\<lparr>thermal_integral := thermal_integral (snd (zen_thermal_pi_controller prm zcpu temp))\<rparr>"
  by (simp add: zen_thermal_pi_controller_def Let_def)

lemma thermal_switch_frame:
  "snd (snd (thermal_switch prm zcpu temp)) =
   zcpu\<lparr>thermal_integral := thermal_integral (snd (snd (thermal_switch prm zcpu temp)))\<rparr>"
  using pi_controller_frame [of prm zcpu temp]
  by (cases "thermal_state zcpu") (simp_all add: thermal_switch_def case_prod_beta)

lemma thermal_check_discovered:
  "discovered (zen_thermal_check_cpu prm stack temp zcpu) = discovered zcpu"
proof -
  have "discovered (snd (snd (thermal_switch prm (zcpu\<lparr>last_temp := temp\<rparr>) temp))) =
        discovered zcpu"
    by (subst thermal_switch_frame) (simp add: discovered_def)
  then show ?thesis
    by (simp add: zen_thermal_check_cpu_def discovered_def Let_def case_prod_beta)
qed

lemma perf_target_update_discovered:
  "discovered (zen_perf_target_update a now zcpu d m x e) = discovered zcpu"
  by (simp add: zen_perf_target_update_def discovered_def)

subsection \<open>Performance target\<close>

text \<open>
  C5, as amended. A publish stamps the new target with the clock reading and with
  \<open>cur_pstate + 1\<close> as its sequence; it does not change \<open>cur_pstate\<close>, so the sequence
  follows the P-state index and is no counter: a publish that follows another one carries
  the same sequence.
\<close>

theorem perf_target_update_stamp:
  "perf_target (zen_perf_target_update True now zcpu d m x e) =
     Some \<lparr> desired_perf = d, min_perf = m, max_perf = x, epp = e, timestamp = now,
            sequence = cur_pstate zcpu + 1 \<rparr> \<and>
   cur_pstate (zen_perf_target_update True now zcpu d m x e) = cur_pstate zcpu \<and>
   map_option sequence
     (perf_target (zen_perf_target_update True now2
        (zen_perf_target_update True now zcpu d m x e) d2 m2 x2 e2)) =
   map_option sequence (perf_target (zen_perf_target_update True now zcpu d m x e))"
  by (simp add: zen_perf_target_update_def)

text \<open>
  C5, the claim as stated fails: two successive publishes on the example core, at clock
  readings 1000 and 2000, both carry the sequence 1.
\<close>

theorem perf_target_sequence_repeats:
  "zen_freq_set_policy True 1000 example_policy =
     Inr (example_core\<lparr>perf_target :=
            Some \<lparr> desired_perf = 255, min_perf = 0, max_perf = 255, epp = 128,
                   timestamp = 1000, sequence = 1 \<rparr>\<rparr>) \<and>
   zen_freq_set_policy True 2000
     (example_policy\<lparr>driver_data :=
        Some (example_core\<lparr>perf_target :=
                Some \<lparr> desired_perf = 255, min_perf = 0, max_perf = 255, epp = 128,
                       timestamp = 1000, sequence = 1 \<rparr>\<rparr>)\<rparr>) =
     Inr (example_core\<lparr>perf_target :=
            Some \<lparr> desired_perf = 255, min_perf = 0, max_perf = 255, epp = 128,
                   timestamp = 2000, sequence = 1 \<rparr>\<rparr>) \<and>
   \<not> (1 :: u32) < 1"
  by (simp add: zen_freq_set_policy_def ZEN_FREQ_TO_PERF_def zen_perf_target_update_def
      example_policy_def example_core_def)

lemma freq_to_perf_unat:
  assumes le: "mn \<le> f" "f \<le> mx" and ne: "mx - mn \<noteq> 0"
    and nowrap: "unat (mx - mn) * 255 < 2 ^ 32"
  shows "\<exists>r. ZEN_FREQ_TO_PERF f mn mx 0 255 = Inr r \<and>
             unat r = (255 * (unat f - unat mn)) div (unat mx - unat mn)"
proof -
  have mnmx: "mn \<le> mx" using le by simp
  have D: "unat (mx - mn) = unat mx - unat mn"
    by (rule unat_sub [OF mnmx])
  have a: "unat (f - mn) = unat f - unat mn"
    by (rule unat_sub [OF le(1)])
  have "unat f \<le> unat mx" using le(2) by (simp add: word_le_nat_alt)
  then have aD: "unat (f - mn) \<le> unat (mx - mn)"
    by (simp add: a D diff_le_mono)
  have "unat (255 :: u32) * unat (f - mn) \<le> unat (mx - mn) * 255"
    using aD by simp
  then have "unat (255 :: u32) * unat (f - mn) < 2 ^ LENGTH(32)"
    using nowrap by simp
  then have m: "unat (255 * (f - mn)) = unat (255 :: u32) * unat (f - mn)"
    by (simp only: unat_mult_lem)
  have r: "ZEN_FREQ_TO_PERF f mn mx 0 255 = Inr ((255 * (f - mn)) div (mx - mn))"
    using ne by (simp only: ZEN_FREQ_TO_PERF_def if_False add_0_left diff_zero)
  have "unat ((255 * (f - mn)) div (mx - mn)) = (255 * (unat f - unat mn)) div (unat mx - unat mn)"
    by (simp only: unat_div m a D) simp
  with r show ?thesis by blast
qed

lemma perf_le_255:
  assumes "a \<le> (d :: nat)" "0 < d"
  shows "(255 * a) div d \<le> 255"
proof -
  have "255 * a \<le> 255 * d" using assms(1) by simp
  then have "(255 * a) div d \<le> (255 * d) div d" by (rule div_le_mono)
  then show ?thesis using assms(2) by simp
qed

lemma unat_ucast_u8:
  "unat (r :: u32) \<le> 255 \<Longrightarrow> unat (ucast r :: u8) = unat r"
  by (simp add: unsigned_ucast_eq take_bit_nat_eq_self)

lemma verify_policy_bounds:
  assumes "zen_freq_verify_policy (Some zcpu) p0 = Inr policy"
  shows "policy_min policy = policy_max policy \<or>
         (min_freq zcpu \<le> policy_min policy \<and> policy_min policy \<le> policy_max policy \<and>
          policy_max policy \<le> max_freq zcpu)"
  using assms
  by (auto simp add: zen_freq_verify_policy_def Let_def split: if_splits)

text \<open>
  C1, as amended. The initial target of \<open>zen_freq_init_cpu\<close> is the zeroed block, so
  \<open>min_perf = desired_perf = max_perf = 0\<close>, within the range 0 to 255 of the discovered
  core. A target published by \<open>zen_freq_set_policy\<close>, for policy bounds that went through
  \<open>zen_freq_verify_policy\<close>, has \<open>min_perf \<le> desired_perf\<close>, its \<open>max_perf\<close> is the thermal
  ceiling of the moment, and all three lie between \<open>lowest_perf\<close> and \<open>highest_perf\<close>.
  Nothing relates \<open>desired_perf\<close> to \<open>max_perf\<close>.
\<close>

theorem published_target_bounds:
  assumes init: "zen_freq_init_cpu prm rdmsr cpb a1 a2 a3 pol0 = Inr pol1"
    and disc: "discovered zcpu"
    and ver: "zen_freq_verify_policy (Some zcpu) p0 = Inr policy"
    and drv: "driver_data policy = Some zcpu"
    and upd: "zen_freq_set_policy True now policy = Inr zcpu'"
  shows "(\<exists>z1 t. driver_data pol1 = Some z1 \<and> discovered z1 \<and> perf_target z1 = Some t \<and>
             t = zeroed_target \<and>
             min_perf t \<le> desired_perf t \<and> desired_perf t \<le> max_perf t \<and>
             lowest_perf z1 \<le> min_perf t \<and> max_perf t \<le> highest_perf z1) \<and>
         (\<exists>t. perf_target zcpu' = Some t \<and>
             min_perf t \<le> desired_perf t \<and>
             max_perf t = thermal_throttle_perf zcpu \<and>
             lowest_perf zcpu' \<le> min_perf t \<and> desired_perf t \<le> highest_perf zcpu' \<and>
             lowest_perf zcpu' \<le> max_perf t \<and> max_perf t \<le> highest_perf zcpu')"
proof -
  from upd drv obtain d m where
    d: "ZEN_FREQ_TO_PERF (policy_max policy) (min_freq zcpu) (max_freq zcpu) 0 255 = Inr d" and
    m: "ZEN_FREQ_TO_PERF (policy_min policy) (min_freq zcpu) (max_freq zcpu) 0 255 = Inr m" and
    z': "zcpu' = zen_perf_target_update True now zcpu (ucast d) (ucast m)
                   (thermal_throttle_perf zcpu) (dynamic_epp zcpu)"
    by (auto simp add: zen_freq_set_policy_def split: sum.splits)
  have ne: "max_freq zcpu - min_freq zcpu \<noteq> 0"
    using d by (auto simp add: ZEN_FREQ_TO_PERF_def split: if_splits)
  have order: "(ucast m :: u8) \<le> ucast d"
    using verify_policy_bounds [OF ver]
  proof
    assume "policy_min policy = policy_max policy"
    with d m show ?thesis by simp
  next
    assume b: "min_freq zcpu \<le> policy_min policy \<and> policy_min policy \<le> policy_max policy \<and>
               policy_max policy \<le> max_freq zcpu"
    have mx: "unat (max_freq zcpu) \<le> 1575000"
      using disc by (simp add: discovered_def word_le_nat_alt)
    have mnmx: "min_freq zcpu \<le> max_freq zcpu"
      using disc by (simp add: discovered_def)
    have "unat (max_freq zcpu - min_freq zcpu) \<le> unat (max_freq zcpu)"
      by (simp add: unat_sub [OF mnmx])
    with mx have nowrap: "unat (max_freq zcpu - min_freq zcpu) * 255 < 2 ^ 32"
      by simp
    have pmin_le: "policy_min policy \<le> max_freq zcpu" using b by (blast intro: order_trans)
    have pmax_ge: "min_freq zcpu \<le> policy_max policy" using b by (blast intro: order_trans)
    from freq_to_perf_unat [OF _ pmin_le ne nowrap] b m
    have um: "unat m = (255 * (unat (policy_min policy) - unat (min_freq zcpu))) div
                       (unat (max_freq zcpu) - unat (min_freq zcpu))"
      by auto
    from freq_to_perf_unat [OF pmax_ge _ ne nowrap] b d
    have ud: "unat d = (255 * (unat (policy_max policy) - unat (min_freq zcpu))) div
                       (unat (max_freq zcpu) - unat (min_freq zcpu))"
      by auto
    have pos: "0 < unat (max_freq zcpu) - unat (min_freq zcpu)"
      using ne mnmx by (metis unat_sub unat_eq_zero neq0_conv)
    have le1: "unat (policy_min policy) \<le> unat (policy_max policy)"
      using b by (simp add: word_le_nat_alt)
    have le2: "unat (policy_max policy) \<le> unat (max_freq zcpu)"
      using b by (simp add: word_le_nat_alt)
    have md: "unat m \<le> unat d"
      unfolding um ud using le1 by (intro div_le_mono mult_le_mono2 diff_le_mono)
    have d255: "unat d \<le> 255"
      unfolding ud using le2 pos by (intro perf_le_255 diff_le_mono)
    with md have m255: "unat m \<le> 255" by simp
    show ?thesis
      using md by (simp add: word_le_nat_alt unat_ucast_u8 [OF d255] unat_ucast_u8 [OF m255])
  qed
  have lo: "lowest_perf zcpu = 0" and hi: "highest_perf zcpu = 255"
    using disc by (simp_all add: discovered_def)
  have hi_top: "x \<le> 255" for x :: u8
  proof -
    have "unat x < 2 ^ LENGTH(8)" by (rule unsigned_less)
    then show ?thesis by (simp add: word_le_nat_alt)
  qed
  have upd_part: "\<exists>t. perf_target zcpu' = Some t \<and>
             min_perf t \<le> desired_perf t \<and>
             max_perf t = thermal_throttle_perf zcpu \<and>
             lowest_perf zcpu' \<le> min_perf t \<and> desired_perf t \<le> highest_perf zcpu' \<and>
             lowest_perf zcpu' \<le> max_perf t \<and> max_perf t \<le> highest_perf zcpu'"
    using order by (simp add: z' zen_perf_target_update_def lo hi hi_top)
  from init_cpu_state [OF init] init_cpu_discovered [OF init]
  have init_part: "\<exists>z1 t. driver_data pol1 = Some z1 \<and> discovered z1 \<and> perf_target z1 = Some t \<and>
             t = zeroed_target \<and>
             min_perf t \<le> desired_perf t \<and> desired_perf t \<le> max_perf t \<and>
             lowest_perf z1 \<le> min_perf t \<and> max_perf t \<le> highest_perf z1"
    by (auto simp add: zeroed_target_def)
  from init_part upd_part show ?thesis by blast
qed

lemma example_hard_core_eq:
  "example_hard_core =
     example_core\<lparr> last_temp := 95, thermal_throttle_perf := 0,
                   stats := zeroed_stats\<lparr>thermal_events := 1\<rparr>,
                   thermal_state := ZEN_THERMAL_HARD_THROTTLE \<rparr>"
  by (simp add: example_hard_core_def zen_thermal_check_cpu_def thermal_switch_def
      example_core_def default_params_def zen_constants zeroed_stats_def Let_def)

lemma example_hard_verify:
  "zen_freq_verify_policy (Some example_hard_core) example_hard_policy = Inr example_hard_policy"
  by (simp add: zen_freq_verify_policy_def example_hard_policy_def example_policy_def
      example_hard_core_eq example_core_def Let_def)

lemma example_hard_set_policy:
  "zen_freq_set_policy True 1000 example_hard_policy =
     Inr (example_hard_core\<lparr>perf_target :=
            Some \<lparr> desired_perf = 255, min_perf = 0, max_perf = 0, epp = 128,
                   timestamp = 1000, sequence = 1 \<rparr>\<rparr>)"
  by (simp add: zen_freq_set_policy_def ZEN_FREQ_TO_PERF_def zen_perf_target_update_def
      example_hard_policy_def example_policy_def example_hard_core_eq example_core_def)

theorem published_target_bounds_witness:
  "zen_freq_init_cpu default_params example_rdmsr False True True True example_policy0 =
     Inr example_policy \<and>
   discovered example_hard_core \<and>
   zen_freq_verify_policy (Some example_hard_core) example_hard_policy = Inr example_hard_policy \<and>
   driver_data example_hard_policy = Some example_hard_core \<and>
   zen_freq_set_policy True 1000 example_hard_policy =
     Inr (example_hard_core\<lparr>perf_target :=
            Some \<lparr> desired_perf = 255, min_perf = 0, max_perf = 0, epp = 128,
                   timestamp = 1000, sequence = 1 \<rparr>\<rparr>) \<and>
   (\<exists>t. perf_target (example_hard_core\<lparr>perf_target :=
            Some \<lparr> desired_perf = 255, min_perf = 0, max_perf = 0, epp = 128,
                   timestamp = 1000, sequence = 1 \<rparr>\<rparr>) = Some t \<and>
        min_perf t \<le> desired_perf t \<and> max_perf t = thermal_throttle_perf example_hard_core \<and>
        desired_perf t \<le> 255) \<and>
   (\<exists>z1 t. driver_data example_policy = Some z1 \<and> discovered z1 \<and> perf_target z1 = Some t \<and>
        min_perf t \<le> desired_perf t \<and> desired_perf t \<le> max_perf t)"
proof -
  have d: "discovered example_hard_core"
    by (simp add: discovered_def example_hard_core_eq example_core_def)
  have drv: "driver_data example_hard_policy = Some example_hard_core"
    by (simp add: example_hard_policy_def)
  note t = published_target_bounds [OF example_init d example_hard_verify drv example_hard_set_policy]
  have hi: "highest_perf example_hard_core = 255"
    by (simp add: example_hard_core_eq example_core_def)
  from t have t1: "\<exists>t. perf_target (example_hard_core\<lparr>perf_target :=
            Some \<lparr> desired_perf = 255, min_perf = 0, max_perf = 0, epp = 128,
                   timestamp = 1000, sequence = 1 \<rparr>\<rparr>) = Some t \<and>
        min_perf t \<le> desired_perf t \<and> max_perf t = thermal_throttle_perf example_hard_core \<and>
        desired_perf t \<le> 255"
    by (simp add: hi)
  from t have t2: "\<exists>z1 t. driver_data example_policy = Some z1 \<and> discovered z1 \<and>
        perf_target z1 = Some t \<and> min_perf t \<le> desired_perf t \<and> desired_perf t \<le> max_perf t"
    by blast
  show ?thesis
    using example_init d example_hard_verify drv example_hard_set_policy t1 t2 by blast
qed

text \<open>
  C1, the claim as stated fails: on the example core in HardThrottle (ceiling 0) the policy
  bounds 200 MHz to 300 MHz publish \<open>desired_perf = 255\<close> above \<open>max_perf = 0\<close>.
\<close>

theorem published_target_desired_above_max:
  "example_hard_core = zen_thermal_check_cpu default_params 0 95 example_core \<and>
   thermal_throttle_perf example_hard_core = 0 \<and>
   zen_freq_verify_policy (Some example_hard_core) example_hard_policy = Inr example_hard_policy \<and>
   zen_freq_set_policy True 1000 example_hard_policy =
     Inr (example_hard_core\<lparr>perf_target :=
            Some \<lparr> desired_perf = 255, min_perf = 0, max_perf = 0, epp = 128,
                   timestamp = 1000, sequence = 1 \<rparr>\<rparr>) \<and>
   \<not> (255 :: u8) \<le> 0"
  using example_hard_verify example_hard_set_policy
  by (simp add: example_hard_core_def [symmetric]) (simp add: example_hard_core_eq)

subsection \<open>Thermal throttle ceiling\<close>

text \<open>
  On the way from SoftThrottle to Recovery the stored ceiling is the stack byte, for every
  core and every parameter setting.
\<close>

lemma thermal_recovery_ceiling_is_stack:
  assumes "thermal_state zcpu = ZEN_THERMAL_SOFT_THROTTLE"
    and "temp \<noteq> 0"
    and "\<not> zen_freq_hard_temp prm \<le> temp"
    and "temp < zen_freq_soft_temp prm - ZEN_THERMAL_HYSTERESIS"
  shows "thermal_throttle_perf (zen_thermal_check_cpu prm stack temp zcpu) = stack"
  using assms by (simp add: thermal_check_ceiling thermal_switch_def)

lemma thermal_switch_normal:
  "fst (thermal_switch prm zcpu temp) = ZEN_THERMAL_NORMAL \<Longrightarrow>
   fst (snd (thermal_switch prm zcpu temp)) = Some (ucast (zen_freq_max_perf prm))"
  by (cases "thermal_state zcpu")
     (simp_all add: thermal_switch_def case_prod_beta split: if_splits)

lemma thermal_switch_hard:
  "fst (thermal_switch prm zcpu temp) = ZEN_THERMAL_HARD_THROTTLE \<Longrightarrow>
   fst (snd (thermal_switch prm zcpu temp)) = Some (lowest_perf zcpu)"
  by (cases "thermal_state zcpu")
     (simp_all add: thermal_switch_def case_prod_beta split: if_splits)

lemma thermal_switch_from_hard:
  "thermal_state zcpu = ZEN_THERMAL_HARD_THROTTLE \<Longrightarrow>
   \<not> temp < zen_freq_hard_temp prm - ZEN_THERMAL_HYSTERESIS \<Longrightarrow>
   fst (snd (thermal_switch prm zcpu temp)) = Some (lowest_perf zcpu)"
  by (simp add: thermal_switch_def)

lemma u8_le_max_perf:
  assumes "255 \<le> (m :: u32)"
  shows "ucast (c :: u8) \<le> m"
proof -
  have "unat c < 2 ^ LENGTH(8)" by (rule unsigned_less)
  then have "unat (ucast c :: u32) \<le> 255"
    by (simp add: unsigned_ucast_eq take_bit_nat_eq_self)
  moreover have "255 \<le> unat m"
    using assms by (simp add: word_le_nat_alt)
  ultimately show ?thesis by (simp add: word_le_nat_alt)
qed

lemma thermal_switch_soft:
  "fst (thermal_switch prm zcpu temp) = ZEN_THERMAL_SOFT_THROTTLE \<Longrightarrow>
   fst (snd (thermal_switch prm zcpu temp)) =
     Some (fst (zen_thermal_pi_controller prm zcpu temp))"
  by (cases "thermal_state zcpu")
     (simp_all add: thermal_switch_def case_prod_beta split: if_splits)

lemma thermal_switch_recovery_stay:
  "thermal_state zcpu = ZEN_THERMAL_RECOVERY \<Longrightarrow>
   fst (thermal_switch prm zcpu temp) = ZEN_THERMAL_RECOVERY \<Longrightarrow>
   fst (snd (thermal_switch prm zcpu temp)) =
     Some (if unat (thermal_throttle_perf zcpu) + 10 < 255
           then thermal_throttle_perf zcpu + 10 else 255)"
  by (simp add: thermal_switch_def case_prod_beta split: if_splits)

text \<open>
  C6, as amended. The ceiling is an 8-bit value, so along any run of polls it is at most
  \<open>zen_freq_max_perf\<close> when that parameter is 255, its default, or more. What a poll with a
  non-zero sample stores is fixed by the state it ends in: \<open>zen_freq_max_perf\<close> (truncated
  to 8 bits) in Normal, \<open>lowest_perf\<close> in HardThrottle, the controller's output
  \<open>255 - clamp(adjustment, 0, 255)\<close>, or 255 when the adjustment is not positive, in
  SoftThrottle (Kp = 50, Ki = 10, scale 1000, the integral clamped to 1000 either way; for a
  sample of at most 127 degrees, a soft limit whose 50-fold fits in 31 bits and an integral
  within its clamp), and the old ceiling plus 10, capped at 255, when the core stays in
  Recovery. A core in HardThrottle that holds \<open>lowest_perf\<close> has its ceiling widened only
  by a poll whose temperature is below the hard limit minus 3, as integers, the hard limit
  being at least 3.
\<close>

theorem thermal_ceiling_bounds:
  assumes valid: "temp \<noteq> 0"
  shows "(255 \<le> zen_freq_max_perf prm \<longrightarrow>
            ucast (thermal_throttle_perf (thermal_polls prm polls start))
              \<le> zen_freq_max_perf prm) \<and>
         (thermal_state (zen_thermal_check_cpu prm stack temp zcpu) = ZEN_THERMAL_NORMAL \<longrightarrow>
            thermal_throttle_perf (zen_thermal_check_cpu prm stack temp zcpu) =
              ucast (zen_freq_max_perf prm)) \<and>
         (thermal_state (zen_thermal_check_cpu prm stack temp zcpu) = ZEN_THERMAL_HARD_THROTTLE \<longrightarrow>
            thermal_throttle_perf (zen_thermal_check_cpu prm stack temp zcpu) = lowest_perf zcpu) \<and>
         (thermal_state (zen_thermal_check_cpu prm stack temp zcpu) = ZEN_THERMAL_SOFT_THROTTLE \<and>
          temp \<le> 127 \<and> uint (zen_freq_soft_temp prm) * 50 < 2 ^ 31 \<and>
          - 1000 \<le> sint (thermal_integral zcpu) \<and> sint (thermal_integral zcpu) \<le> 1000 \<longrightarrow>
            uint (thermal_throttle_perf (zen_thermal_check_cpu prm stack temp zcpu)) =
              spec_pi_ceiling 50 10 1000 1000 255 (uint (zen_freq_soft_temp prm))
                (sint (thermal_integral zcpu)) (uint temp)) \<and>
         (thermal_state zcpu = ZEN_THERMAL_RECOVERY \<and>
          thermal_state (zen_thermal_check_cpu prm stack temp zcpu) = ZEN_THERMAL_RECOVERY \<longrightarrow>
            uint (thermal_throttle_perf (zen_thermal_check_cpu prm stack temp zcpu)) =
              min (uint (thermal_throttle_perf zcpu) + 10) 255) \<and>
         (3 \<le> zen_freq_hard_temp prm \<and>
          thermal_state zcpu = ZEN_THERMAL_HARD_THROTTLE \<and>
          thermal_throttle_perf zcpu = lowest_perf zcpu \<and>
          thermal_throttle_perf zcpu < thermal_throttle_perf (zen_thermal_check_cpu prm stack temp zcpu) \<longrightarrow>
            uint temp < uint (zen_freq_hard_temp prm) - 3)"
proof (intro conjI impI)
  assume "255 \<le> zen_freq_max_perf prm"
  then show "ucast (thermal_throttle_perf (thermal_polls prm polls start))
              \<le> zen_freq_max_perf prm"
    by (rule u8_le_max_perf)
next
  assume "thermal_state (zen_thermal_check_cpu prm stack temp zcpu) = ZEN_THERMAL_NORMAL"
  then have "fst (thermal_switch prm (zcpu\<lparr>last_temp := temp\<rparr>) temp) = ZEN_THERMAL_NORMAL"
    by (simp add: thermal_check_state [OF valid])
  from thermal_switch_normal [OF this]
  show "thermal_throttle_perf (zen_thermal_check_cpu prm stack temp zcpu) =
          ucast (zen_freq_max_perf prm)"
    by (simp add: thermal_check_ceiling [OF valid])
next
  assume "thermal_state (zen_thermal_check_cpu prm stack temp zcpu) = ZEN_THERMAL_HARD_THROTTLE"
  then have "fst (thermal_switch prm (zcpu\<lparr>last_temp := temp\<rparr>) temp) = ZEN_THERMAL_HARD_THROTTLE"
    by (simp add: thermal_check_state [OF valid])
  from thermal_switch_hard [OF this]
  show "thermal_throttle_perf (zen_thermal_check_cpu prm stack temp zcpu) = lowest_perf zcpu"
    by (simp add: thermal_check_ceiling [OF valid])
next
  let ?z1 = "zcpu\<lparr>last_temp := temp\<rparr>"
  assume a: "thermal_state (zen_thermal_check_cpu prm stack temp zcpu) = ZEN_THERMAL_SOFT_THROTTLE \<and>
          temp \<le> 127 \<and> uint (zen_freq_soft_temp prm) * 50 < 2 ^ 31 \<and>
          - 1000 \<le> sint (thermal_integral zcpu) \<and> sint (thermal_integral zcpu) \<le> 1000"
  then have "fst (thermal_switch prm ?z1 temp) = ZEN_THERMAL_SOFT_THROTTLE"
    by (simp add: thermal_check_state [OF valid])
  from thermal_switch_soft [OF this]
  have c: "thermal_throttle_perf (zen_thermal_check_cpu prm stack temp zcpu) =
           fst (zen_thermal_pi_controller prm ?z1 temp)"
    by (simp add: thermal_check_ceiling [OF valid])
  from a have t: "temp \<le> 127" and s: "uint (zen_freq_soft_temp prm) * 50 < 2 ^ 31"
    and lo: "- 1000 \<le> sint (thermal_integral ?z1)" and hi: "sint (thermal_integral ?z1) \<le> 1000"
    by simp_all
  from pi_controller_spec(1) [OF t s lo hi]
  show "uint (thermal_throttle_perf (zen_thermal_check_cpu prm stack temp zcpu)) =
          spec_pi_ceiling 50 10 1000 1000 255 (uint (zen_freq_soft_temp prm))
            (sint (thermal_integral zcpu)) (uint temp)"
    by (simp add: c)
next
  let ?z1 = "zcpu\<lparr>last_temp := temp\<rparr>"
  assume a: "thermal_state zcpu = ZEN_THERMAL_RECOVERY \<and>
          thermal_state (zen_thermal_check_cpu prm stack temp zcpu) = ZEN_THERMAL_RECOVERY"
  then have r: "thermal_state ?z1 = ZEN_THERMAL_RECOVERY"
    and "fst (thermal_switch prm ?z1 temp) = ZEN_THERMAL_RECOVERY"
    by (simp_all add: thermal_check_state [OF valid])
  from thermal_switch_recovery_stay [OF this]
  have "thermal_throttle_perf (zen_thermal_check_cpu prm stack temp zcpu) =
        (if unat (thermal_throttle_perf zcpu) + 10 < 255
         then thermal_throttle_perf zcpu + 10 else 255)"
    by (simp add: thermal_check_ceiling [OF valid])
  then show "uint (thermal_throttle_perf (zen_thermal_check_cpu prm stack temp zcpu)) =
          min (uint (thermal_throttle_perf zcpu) + 10) 255"
    by (simp only: ramp_uint)
next
  assume a: "3 \<le> zen_freq_hard_temp prm \<and>
          thermal_state zcpu = ZEN_THERMAL_HARD_THROTTLE \<and>
          thermal_throttle_perf zcpu = lowest_perf zcpu \<and>
          thermal_throttle_perf zcpu < thermal_throttle_perf (zen_thermal_check_cpu prm stack temp zcpu)"
  then have hh: "uint (zen_freq_hard_temp prm - ZEN_THERMAL_HYSTERESIS) =
                 uint (zen_freq_hard_temp prm) - 3"
    by (simp add: uint_minus_simple_alt zen_constants)
  have "temp < zen_freq_hard_temp prm - ZEN_THERMAL_HYSTERESIS"
  proof (rule ccontr)
    assume n: "\<not> temp < zen_freq_hard_temp prm - ZEN_THERMAL_HYSTERESIS"
    have "thermal_state (zcpu\<lparr>last_temp := temp\<rparr>) = ZEN_THERMAL_HARD_THROTTLE"
      using a by simp
    from thermal_switch_from_hard [OF this n]
    have same: "thermal_throttle_perf (zen_thermal_check_cpu prm stack temp zcpu) = lowest_perf zcpu"
      by (simp add: thermal_check_ceiling [OF valid])
    from a have old: "thermal_throttle_perf zcpu = lowest_perf zcpu"
      and wider: "thermal_throttle_perf zcpu <
                  thermal_throttle_perf (zen_thermal_check_cpu prm stack temp zcpu)"
      by blast+
    from wider show False unfolding same old by simp
  qed
  then show "uint temp < uint (zen_freq_hard_temp prm) - 3"
    by (simp add: word_less_def hh)
qed

lemma example_recovery_core_eq:
  "example_recovery_core =
     example_core\<lparr> last_temp := 76, thermal_integral := 0, thermal_throttle_perf := 200,
                   stats := zeroed_stats\<lparr>thermal_events := 1\<rparr>,
                   thermal_state := ZEN_THERMAL_RECOVERY \<rparr>"
  by (simp add: example_recovery_core_def example_soft_core_eq zen_thermal_check_cpu_def
      thermal_switch_def example_core_def default_params_def zen_constants zeroed_stats_def
      Let_def)

lemma example_checks:
  "thermal_state (zen_thermal_check_cpu default_params 0 86 example_hard_core) =
     ZEN_THERMAL_SOFT_THROTTLE"
  "thermal_throttle_perf (zen_thermal_check_cpu default_params 0 86 example_hard_core) = 255"
  "thermal_state (zen_thermal_check_cpu default_params 0 70 example_core) = ZEN_THERMAL_NORMAL"
  "thermal_state (zen_thermal_check_cpu default_params 0 95 example_core) =
     ZEN_THERMAL_HARD_THROTTLE"
  "thermal_state (zen_thermal_check_cpu default_params 0 78 example_recovery_core) =
     ZEN_THERMAL_RECOVERY"
  "thermal_state (zen_thermal_check_cpu example_warm_params 0 88 example_core) =
     ZEN_THERMAL_SOFT_THROTTLE"
  by (simp_all add: zen_thermal_check_cpu_def thermal_switch_def zen_thermal_pi_controller_def
      s32_div_def ZEN_CLAMP_def signed_divide_int_def example_hard_core_eq
      example_recovery_core_eq example_warm_params_def example_core_def
      default_params_def zen_constants Let_def)

lemma spec_pi_ceiling_examples:
  "spec_pi_ceiling 50 10 1000 1000 255 80 0 86 = 255"
  "spec_pi_ceiling 50 10 1000 1000 255 48 0 88 = 253"
  by (simp_all add: spec_pi_ceiling_def spec_pi_integral_def spec_clamp_def
      signed_divide_int_def Let_def)

theorem thermal_ceiling_bounds_witness:
  "(86 :: u32) \<noteq> 0 \<and>
   255 \<le> zen_freq_max_perf default_params \<and>
   3 \<le> zen_freq_hard_temp default_params \<and>
   thermal_state example_hard_core = ZEN_THERMAL_HARD_THROTTLE \<and>
   thermal_throttle_perf example_hard_core = lowest_perf example_hard_core \<and>
   thermal_throttle_perf example_hard_core <
     thermal_throttle_perf (zen_thermal_check_cpu default_params 0 86 example_hard_core) \<and>
   ucast (thermal_throttle_perf
            (thermal_polls default_params [(0, 95), (0, 86), (0, 76), (0, 78)] example_core))
     \<le> zen_freq_max_perf default_params \<and>
   uint (86 :: u32) < uint (zen_freq_hard_temp default_params) - 3 \<and>
   (70 :: u32) \<noteq> 0 \<and>
   thermal_state (zen_thermal_check_cpu default_params 0 70 example_core) = ZEN_THERMAL_NORMAL \<and>
   thermal_throttle_perf (zen_thermal_check_cpu default_params 0 70 example_core) =
     ucast (zen_freq_max_perf default_params) \<and>
   (95 :: u32) \<noteq> 0 \<and>
   thermal_state (zen_thermal_check_cpu default_params 0 95 example_core) =
     ZEN_THERMAL_HARD_THROTTLE \<and>
   thermal_throttle_perf (zen_thermal_check_cpu default_params 0 95 example_core) =
     lowest_perf example_core \<and>
   (78 :: u32) \<noteq> 0 \<and>
   thermal_state example_recovery_core = ZEN_THERMAL_RECOVERY \<and>
   thermal_state (zen_thermal_check_cpu default_params 0 78 example_recovery_core) =
     ZEN_THERMAL_RECOVERY \<and>
   uint (thermal_throttle_perf example_recovery_core) = 200 \<and>
   uint (thermal_throttle_perf (zen_thermal_check_cpu default_params 0 78 example_recovery_core)) =
     210 \<and>
   (88 :: u32) \<noteq> 0 \<and> (88 :: u32) \<le> 127 \<and>
   uint (zen_freq_soft_temp example_warm_params) * 50 < 2 ^ 31 \<and>
   - 1000 \<le> sint (thermal_integral example_core) \<and>
   sint (thermal_integral example_core) \<le> 1000 \<and>
   thermal_state (zen_thermal_check_cpu example_warm_params 0 88 example_core) =
     ZEN_THERMAL_SOFT_THROTTLE \<and>
   uint (thermal_throttle_perf (zen_thermal_check_cpu example_warm_params 0 88 example_core)) =
     spec_pi_ceiling 50 10 1000 1000 255 48 0 88 \<and>
   uint (thermal_throttle_perf (zen_thermal_check_cpu example_warm_params 0 88 example_core)) =
     253"
proof -
  have v86: "(86 :: u32) \<noteq> 0" and v70: "(70 :: u32) \<noteq> 0" and v95: "(95 :: u32) \<noteq> 0"
    and v78: "(78 :: u32) \<noteq> 0" and v88: "(88 :: u32) \<noteq> 0"
    by simp_all
  have m: "255 \<le> zen_freq_max_perf default_params"
    and h: "3 \<le> zen_freq_hard_temp default_params"
    by (simp_all add: default_params_def zen_constants)
  have s: "thermal_state example_hard_core = ZEN_THERMAL_HARD_THROTTLE"
    and c: "thermal_throttle_perf example_hard_core = lowest_perf example_hard_core"
    and c0: "thermal_throttle_perf example_hard_core = 0"
    by (simp_all add: example_hard_core_eq example_core_def)
  have w: "thermal_throttle_perf example_hard_core <
      thermal_throttle_perf (zen_thermal_check_cpu default_params 0 86 example_hard_core)"
    by (simp add: c0 example_checks(2))
  note a = thermal_ceiling_bounds [OF v86, where prm = default_params
      and polls = "[(0, 95), (0, 86), (0, 76), (0, 78)]" and start = example_core
      and stack = 0 and zcpu = example_hard_core]
  from a m have a1: "ucast (thermal_throttle_perf
            (thermal_polls default_params [(0, 95), (0, 86), (0, 76), (0, 78)] example_core))
     \<le> zen_freq_max_perf default_params"
    by blast
  from a h s c w have a6: "uint (86 :: u32) < uint (zen_freq_hard_temp default_params) - 3"
    by blast
  note b = thermal_ceiling_bounds [OF v70, where prm = default_params
      and stack = 0 and zcpu = example_core]
  from b example_checks(3)
  have b2: "thermal_throttle_perf (zen_thermal_check_cpu default_params 0 70 example_core) =
     ucast (zen_freq_max_perf default_params)"
    by blast
  note c' = thermal_ceiling_bounds [OF v95, where prm = default_params
      and stack = 0 and zcpu = example_core]
  from c' example_checks(4)
  have c3: "thermal_throttle_perf (zen_thermal_check_cpu default_params 0 95 example_core) =
     lowest_perf example_core"
    by blast
  have r: "thermal_state example_recovery_core = ZEN_THERMAL_RECOVERY"
    and r200: "uint (thermal_throttle_perf example_recovery_core) = 200"
    by (simp_all add: example_recovery_core_eq)
  note d = thermal_ceiling_bounds [OF v78, where prm = default_params
      and stack = 0 and zcpu = example_recovery_core]
  from d r example_checks(5)
  have "uint (thermal_throttle_perf (zen_thermal_check_cpu default_params 0 78 example_recovery_core)) =
     min (uint (thermal_throttle_perf example_recovery_core) + 10) 255"
    by blast
  then have d5: "uint (thermal_throttle_perf
      (zen_thermal_check_cpu default_params 0 78 example_recovery_core)) = 210"
    by (simp add: r200)
  have t88: "(88 :: u32) \<le> 127" by simp
  have s48: "uint (zen_freq_soft_temp example_warm_params) * 50 < 2 ^ 31"
    by (simp add: example_warm_params_def)
  have lo: "- 1000 \<le> sint (thermal_integral example_core)"
    and hi: "sint (thermal_integral example_core) \<le> 1000"
    by (simp_all add: example_core_def)
  note e = thermal_ceiling_bounds [OF v88, where prm = example_warm_params
      and stack = 0 and zcpu = example_core]
  from e example_checks(6) t88 s48 lo hi
  have "uint (thermal_throttle_perf (zen_thermal_check_cpu example_warm_params 0 88 example_core)) =
     spec_pi_ceiling 50 10 1000 1000 255 (uint (zen_freq_soft_temp example_warm_params))
       (sint (thermal_integral example_core)) (uint (88 :: u32))"
    by blast
  then have e4: "uint (thermal_throttle_perf
      (zen_thermal_check_cpu example_warm_params 0 88 example_core)) =
     spec_pi_ceiling 50 10 1000 1000 255 48 0 88"
    by (simp add: example_warm_params_def example_core_def)
  from e4 have e4': "uint (thermal_throttle_perf
      (zen_thermal_check_cpu example_warm_params 0 88 example_core)) = 253"
    by (simp only: spec_pi_ceiling_examples)
  show ?thesis
    using v86 m h s c w a1 a6 v70 example_checks(3) b2 v95 example_checks(4) c3
      v78 r example_checks(5) r200 d5 v88 t88 s48 lo hi example_checks(6) e4 e4'
    by blast
qed

lemma example_capped_init:
  "zen_freq_init_cpu example_capped_params example_rdmsr False True True True example_policy0 =
   Inr example_policy"
  by (simp add: zen_freq_init_cpu_def zen_freq_get_pstate_info_def pstate_info_round_def
      example_rdmsr_def example_policy0_def example_policy_def example_core_def
      example_capped_params_def
      zeroed_cpu_def zeroed_stats_def default_params_def zen_constants Let_def
      zen_freq_calc_freq_from_pstate_def pstate_fields zen_voltage_check_all_pstates_def
      zen_voltage_verify_pstate_def ZEN_VID_TO_MV_def zen_freq_build_freq_table_def)

lemma example_warm_polls:
  "thermal_state (zen_thermal_check_cpu example_warm_params 0 88 example_core) =
     ZEN_THERMAL_SOFT_THROTTLE \<and>
   thermal_throttle_perf (zen_thermal_check_cpu example_warm_params 0 88 example_core) = 253 \<and>
   thermal_state (thermal_polls example_warm_params [(0, 88), (0, 87)] example_core) =
     ZEN_THERMAL_SOFT_THROTTLE \<and>
   thermal_throttle_perf (thermal_polls example_warm_params [(0, 88), (0, 87)] example_core) = 254"
  by (simp add: zen_thermal_check_cpu_def thermal_switch_def zen_thermal_pi_controller_def
      s32_div_def ZEN_CLAMP_def signed_divide_int_def example_warm_params_def example_core_def
      default_params_def zen_constants word_sless_alt Let_def)

lemma example_low_hard_polls:
  "thermal_state (thermal_polls example_low_hard_params [(0, 50)] example_core) =
     ZEN_THERMAL_HARD_THROTTLE \<and>
   thermal_throttle_perf (thermal_polls example_low_hard_params [(0, 50)] example_core) = 0 \<and>
   thermal_state (thermal_polls example_low_hard_params [(0, 50), (0, 50)] example_core) =
     ZEN_THERMAL_SOFT_THROTTLE \<and>
   thermal_throttle_perf (thermal_polls example_low_hard_params [(0, 50), (0, 50)] example_core) = 255"
  by (simp add: zen_thermal_check_cpu_def thermal_switch_def zen_thermal_pi_controller_def
      s32_div_def ZEN_CLAMP_def signed_divide_int_def example_low_hard_params_def example_core_def
      default_params_def zen_constants Let_def)

text \<open>
  C6, the claim as stated fails. With \<open>max_perf\<close> set to 200, the example core holds the
  ceiling 255 after discovery and 200 after a poll at 70 degrees; the next poll, at 88
  degrees, takes it to SoftThrottle and the controller's output widens the ceiling to 255,
  above the configured maximum, although 88 is below neither hysteresis-adjusted threshold
  (77 and 87). With \<open>max_perf\<close> at its default and the soft limit at 48, a poll at 88
  degrees stores the ceiling 253 and the next one, at 87 degrees, widens it to 254,
  although 87 is below neither 45 nor 87. With the hard limit at 2, two polls at 50 degrees
  store 0 and then 255, although 50 is not below -1.
\<close>

theorem thermal_ceiling_exceeds_max_perf:
  "zen_freq_init_cpu example_capped_params example_rdmsr False True True True example_policy0 =
     Inr example_policy \<and>
   driver_data example_policy = Some example_core \<and>
   zen_freq_max_perf example_capped_params = 200 \<and>
   zen_freq_soft_temp example_capped_params = 80 \<and>
   zen_freq_hard_temp example_capped_params = 90 \<and>
   thermal_throttle_perf example_core = 255 \<and>
   example_capped_core = zen_thermal_check_cpu example_capped_params 0 70 example_core \<and>
   thermal_state example_capped_core = ZEN_THERMAL_NORMAL \<and>
   thermal_throttle_perf example_capped_core = 200 \<and>
   thermal_state (zen_thermal_check_cpu example_capped_params 0 88 example_capped_core) =
     ZEN_THERMAL_SOFT_THROTTLE \<and>
   thermal_throttle_perf (zen_thermal_check_cpu example_capped_params 0 88 example_capped_core) = 255 \<and>
   \<not> ucast (thermal_throttle_perf
              (zen_thermal_check_cpu example_capped_params 0 88 example_capped_core))
       \<le> zen_freq_max_perf example_capped_params \<and>
   \<not> (88 :: u32) < zen_freq_soft_temp example_capped_params - ZEN_THERMAL_HYSTERESIS \<and>
   \<not> (88 :: u32) < zen_freq_hard_temp example_capped_params - ZEN_THERMAL_HYSTERESIS \<and>
   zen_freq_max_perf example_warm_params = 255 \<and>
   zen_freq_soft_temp example_warm_params = 48 \<and>
   zen_freq_hard_temp example_warm_params = 90 \<and>
   thermal_state (zen_thermal_check_cpu example_warm_params 0 88 example_core) =
     ZEN_THERMAL_SOFT_THROTTLE \<and>
   thermal_throttle_perf (zen_thermal_check_cpu example_warm_params 0 88 example_core) = 253 \<and>
   thermal_state (thermal_polls example_warm_params [(0, 88), (0, 87)] example_core) =
     ZEN_THERMAL_SOFT_THROTTLE \<and>
   thermal_throttle_perf (thermal_polls example_warm_params [(0, 88), (0, 87)] example_core) = 254 \<and>
   \<not> uint (87 :: u32) < uint (zen_freq_soft_temp example_warm_params) - 3 \<and>
   \<not> uint (87 :: u32) < uint (zen_freq_hard_temp example_warm_params) - 3 \<and>
   zen_freq_max_perf example_low_hard_params = 255 \<and>
   zen_freq_hard_temp example_low_hard_params = 2 \<and>
   thermal_state (thermal_polls example_low_hard_params [(0, 50)] example_core) =
     ZEN_THERMAL_HARD_THROTTLE \<and>
   thermal_throttle_perf (thermal_polls example_low_hard_params [(0, 50)] example_core) = 0 \<and>
   thermal_throttle_perf (thermal_polls example_low_hard_params [(0, 50), (0, 50)] example_core) = 255 \<and>
   \<not> uint (50 :: u32) < uint (zen_freq_hard_temp example_low_hard_params) - 3"
  using example_warm_polls example_low_hard_polls
  by (simp add: example_capped_core_def [symmetric] example_capped_init)
     (simp add: zen_thermal_check_cpu_def thermal_switch_def zen_thermal_pi_controller_def
      example_policy_def example_warm_params_def example_low_hard_params_def
      s32_div_def ZEN_CLAMP_def signed_divide_int_def example_capped_core_eq
      example_capped_params_def example_core_def default_params_def zen_constants Let_def)

subsection \<open>Voltage verifier\<close>

text \<open>
  The conversion moves in steps of 25 mV from 1550 mV down, so no P-state is ever at
  1460 mV; the nearest voltage above the default ceiling is 1475 mV, at VID 3.
\<close>

lemma vid_to_mv_grid: "ZEN_VID_TO_MV v \<noteq> 1460"
proof
  assume "ZEN_VID_TO_MV v = 1460"
  then have "(ucast v :: u32) * 25 = 90"
    by (simp add: ZEN_VID_TO_MV_def algebra_simps)
  then have e: "unat ((ucast v :: u32) * 25) = 90" by simp
  have "unat v < 2 ^ LENGTH(8)" by (rule unsigned_less)
  then have b: "unat (ucast v :: u32) < 256"
    by (simp add: unsigned_ucast_eq take_bit_nat_eq_self)
  then have "unat (ucast v :: u32) * unat (25 :: u32) < 2 ^ 32" by simp
  then have "unat ((ucast v :: u32) * 25) = unat (ucast v :: u32) * unat (25 :: u32)"
    by (rule unat_mult_small)
  with e have "unat (ucast v :: u32) * 25 = 90" by simp
  then show False by presburger
qed


lemma check_boost_states_result:
  "fst (check_boost_states prm pss h) = map (\<lambda>p. fst (zen_voltage_verify_pstate prm p)) pss"
  by (induction pss arbitrary: h) (auto simp add: case_prod_beta Let_def)



end
